theory Spec2Isabelle
  imports Complex_Main "HOL-Library.Product_Lexorder" "HOL-Library.List_Lexorder" "HOL-Library.Char_ord"
begin

section \<open>Data model\<close>

text \<open>
  The repository holds two near-duplicate scripts, \<^verbatim>\<open>BTC_Tracking.py\<close> and \<^verbatim>\<open>test.py\<close>.
  Definitions without a prefix follow \<^verbatim>\<open>BTC_Tracking.py\<close> (pagination by trade id);
  definitions prefixed \<open>test_\<close> follow \<^verbatim>\<open>test.py\<close> (pagination by timestamp).

  A raw trade is one JSON object of the exchange's reply. The scripts read the keys
  \<^verbatim>\<open>a\<close> (aggregate trade id), \<^verbatim>\<open>p\<close> (price, a string), \<^verbatim>\<open>q\<close> (quantity, a string),
  \<^verbatim>\<open>T\<close> (timestamp) and \<^verbatim>\<open>m\<close> (buyer is the maker).
\<close>

record raw_trade =
  trade_a :: int
  trade_p :: string
  trade_q :: string
  trade_T :: int
  trade_m :: bool

text \<open>
  One processed trade, the dictionary that \<^verbatim>\<open>process_trades\<close> appends. Its timestamp key
  is \<^verbatim>\<open>T\<close> in \<^verbatim>\<open>BTC_Tracking.py\<close> and \<^verbatim>\<open>timestamp_us\<close> in \<^verbatim>\<open>test.py\<close>; the name of the
  column is kept in the data frame. The type \<open>'f\<close> stands for Python's \<^verbatim>\<open>float\<close>: its
  parsing, product and column sum are parameters of the functions below, so nothing
  proved here depends on how binary floating point rounds. Its order is a linear
  order: the values compared are numbers, never NaN.
\<close>

record 'f trade_row =
  timestamp_us :: int
  amount_btc :: 'f
  amount_usdt :: 'f
  side :: string

text \<open>
  A pandas data frame: the column labels and the rows. \<^verbatim>\<open>pd.DataFrame(records)\<close> takes
  its columns from the keys of the dictionaries, so an empty list of records gives a
  frame with no columns at all.
\<close>

record 'f DataFrame =
  columns :: "string list"
  rows :: "'f trade_row list"

text \<open>
  The exceptions that leave a function of the scripts: \<^verbatim>\<open>ValueError\<close> from \<^verbatim>\<open>float\<close>,
  \<^verbatim>\<open>KeyError\<close> from pandas when a column label is missing.
\<close>

datatype error = ValueError | KeyError

definition pd_DataFrame :: "string \<Rightarrow> 'f trade_row list \<Rightarrow> 'f DataFrame" where
  "pd_DataFrame tcol records =
     \<lparr>columns = (if records = [] then [] else [tcol, ''amount_btc'', ''amount_usdt'', ''side'']),
      rows = records\<rparr>"

section \<open>Trade normalizer: \<^verbatim>\<open>process_trades\<close>\<close>

text \<open>
  The \<^verbatim>\<open>for\<close> loop over the raw trades, with the list \<^verbatim>\<open>processed_trades\<close> as the
  accumulator. \<^verbatim>\<open>float(s)\<close> raises \<^verbatim>\<open>ValueError\<close> on a string that is no number, which
  nothing catches: \<open>float_of s = None\<close>. The dictionary evaluates
  \<^verbatim>\<open>float(trade["q"])\<close> before \<^verbatim>\<open>float(trade["p"])\<close>.
\<close>

fun process_trades_loop ::
  "(string \<Rightarrow> 'f option) \<Rightarrow> ('f \<Rightarrow> 'f \<Rightarrow> 'f) \<Rightarrow> raw_trade list \<Rightarrow> 'f trade_row list
    \<Rightarrow> error + 'f trade_row list" where
  "process_trades_loop float_of fmul [] processed_trades = Inr processed_trades"
| "process_trades_loop float_of fmul (trade # trades) processed_trades =
     (let side = (if trade_m trade then ''SELL'' else ''BUY'') in
      case float_of (trade_q trade) of
        None \<Rightarrow> Inl ValueError
      | Some qty \<Rightarrow>
          (case float_of (trade_p trade) of
             None \<Rightarrow> Inl ValueError
           | Some price \<Rightarrow>
               process_trades_loop float_of fmul trades
                 (processed_trades @
                   [\<lparr>timestamp_us = trade_T trade, amount_btc = qty,
                     amount_usdt = fmul qty price, side = side\<rparr>])))"

definition process_trades ::
  "(string \<Rightarrow> 'f option) \<Rightarrow> ('f \<Rightarrow> 'f \<Rightarrow> 'f) \<Rightarrow> raw_trade list \<Rightarrow> error + 'f DataFrame" where
  "process_trades float_of fmul trades =
     (case process_trades_loop float_of fmul trades [] of
        Inl e \<Rightarrow> Inl e
      | Inr processed_trades \<Rightarrow> Inr (pd_DataFrame ''T'' processed_trades))"

text \<open>\<^verbatim>\<open>test.py\<close> decides the side with \<^verbatim>\<open>if not trade["m"]\<close>.\<close>

fun test_process_trades_loop ::
  "(string \<Rightarrow> 'f option) \<Rightarrow> ('f \<Rightarrow> 'f \<Rightarrow> 'f) \<Rightarrow> raw_trade list \<Rightarrow> 'f trade_row list
    \<Rightarrow> error + 'f trade_row list" where
  "test_process_trades_loop float_of fmul [] processed_trades = Inr processed_trades"
| "test_process_trades_loop float_of fmul (trade # trades) processed_trades =
     (let side = (if \<not> trade_m trade then ''BUY'' else ''SELL'') in
      case float_of (trade_q trade) of
        None \<Rightarrow> Inl ValueError
      | Some qty \<Rightarrow>
          (case float_of (trade_p trade) of
             None \<Rightarrow> Inl ValueError
           | Some price \<Rightarrow>
               test_process_trades_loop float_of fmul trades
                 (processed_trades @
                   [\<lparr>timestamp_us = trade_T trade, amount_btc = qty,
                     amount_usdt = fmul qty price, side = side\<rparr>])))"

definition test_process_trades ::
  "(string \<Rightarrow> 'f option) \<Rightarrow> ('f \<Rightarrow> 'f \<Rightarrow> 'f) \<Rightarrow> raw_trade list \<Rightarrow> error + 'f DataFrame" where
  "test_process_trades float_of fmul trades =
     (case test_process_trades_loop float_of fmul trades [] of
        Inl e \<Rightarrow> Inl e
      | Inr processed_trades \<Rightarrow> Inr (pd_DataFrame ''timestamp_us'' processed_trades))"

text \<open>
  What one raw trade becomes when both of its numbers parse. The two scripts agree on
  it, so the lemmas about the loops are stated against this one record.
\<close>

definition processed ::
  "(string \<Rightarrow> 'f option) \<Rightarrow> ('f \<Rightarrow> 'f \<Rightarrow> 'f) \<Rightarrow> raw_trade \<Rightarrow> 'f trade_row" where
  "processed float_of fmul trade =
     \<lparr>timestamp_us = trade_T trade,
      amount_btc = the (float_of (trade_q trade)),
      amount_usdt = fmul (the (float_of (trade_q trade))) (the (float_of (trade_p trade))),
      side = (if trade_m trade then ''SELL'' else ''BUY'')\<rparr>"

definition parses :: "(string \<Rightarrow> 'f option) \<Rightarrow> raw_trade \<Rightarrow> bool" where
  "parses float_of trade = (float_of (trade_q trade) \<noteq> None \<and> float_of (trade_p trade) \<noteq> None)"

section \<open>Aggregator and ranker: \<^verbatim>\<open>find_largest_trades\<close>\<close>

text \<open>
  \<^verbatim>\<open>df.groupby([tcol, 'side']).agg({'amount_btc': 'sum', 'amount_usdt': 'sum'}).reset_index()\<close>:
  pandas raises \<^verbatim>\<open>KeyError\<close> when a label is not a column of the frame. Otherwise the
  result has one row per key, the keys in ascending order (\<^verbatim>\<open>sort=True\<close> is the
  default; timestamps compare as integers, sides as strings), and each value column
  holds the column sum over the rows of the group, taken in the order of the frame.
  The sum itself is the parameter \<open>fsum\<close>.
\<close>

definition group_key :: "'f trade_row \<Rightarrow> int \<times> string" where
  "group_key r = (timestamp_us r, side r)"

definition group_members :: "'f trade_row list \<Rightarrow> int \<times> string \<Rightarrow> 'f trade_row list" where
  "group_members rs k = filter (\<lambda>r. group_key r = k) rs"

definition agg_sum :: "('f list \<Rightarrow> 'f) \<Rightarrow> 'f trade_row list \<Rightarrow> int \<times> string \<Rightarrow> 'f trade_row" where
  "agg_sum fsum rs k =
     \<lparr>timestamp_us = fst k,
      amount_btc = fsum (map amount_btc (group_members rs k)),
      amount_usdt = fsum (map amount_usdt (group_members rs k)),
      side = snd k\<rparr>"

definition groupby_agg_sum ::
  "string \<Rightarrow> ('f list \<Rightarrow> 'f) \<Rightarrow> 'f DataFrame \<Rightarrow> error + 'f DataFrame" where
  "groupby_agg_sum tcol fsum df =
     (if tcol \<notin> set (columns df) \<or> ''side'' \<notin> set (columns df) then Inl KeyError
      else if ''amount_btc'' \<notin> set (columns df) \<or> ''amount_usdt'' \<notin> set (columns df)
        then Inl KeyError
      else Inr \<lparr>columns = [tcol, ''side'', ''amount_btc'', ''amount_usdt''],
                rows = map (agg_sum fsum (rows df)) (sort (remdups (map group_key (rows df))))\<rparr>)"

text \<open>
  \<^verbatim>\<open>grouped.nlargest(n, 'amount_usdt')\<close>: the first \<open>n\<close> rows in descending order of the
  column, and among rows with equal values the one that comes first in the frame
  (\<^verbatim>\<open>keep='first'\<close> is the default); no row for \<open>n \<le> 0\<close>. The descending order is an
  insertion sort from the right end of the frame: a row goes in front of the rows
  that are not larger, so in front of its equals that follow it in the frame.
\<close>

fun insert_desc :: "'f::linorder trade_row \<Rightarrow> 'f trade_row list \<Rightarrow> 'f trade_row list" where
  "insert_desc x [] = [x]"
| "insert_desc x (y # ys) =
     (if amount_usdt y \<le> amount_usdt x then x # y # ys else y # insert_desc x ys)"

definition sort_desc :: "'f::linorder trade_row list \<Rightarrow> 'f trade_row list" where
  "sort_desc rs = foldr insert_desc rs []"

definition nlargest :: "int \<Rightarrow> 'f::linorder DataFrame \<Rightarrow> 'f DataFrame" where
  "nlargest n df =
     df\<lparr>rows := (if n \<le> 0 then [] else take (nat n) (sort_desc (rows df)))\<rparr>"

text \<open>
  The function itself. The printed summaries (and, in \<^verbatim>\<open>test.py\<close>, the frame
  \<^verbatim>\<open>duplicate_check\<close>, which is printed and never used) do not change the result.
\<close>

definition find_largest_trades ::
  "('f list \<Rightarrow> 'f) \<Rightarrow> 'f::linorder DataFrame \<Rightarrow> int \<Rightarrow> error + 'f DataFrame" where
  "find_largest_trades fsum df n =
     (case groupby_agg_sum ''T'' fsum df of
        Inl e \<Rightarrow> Inl e
      | Inr grouped \<Rightarrow> Inr (nlargest n grouped))"

definition test_find_largest_trades ::
  "('f list \<Rightarrow> 'f) \<Rightarrow> 'f::linorder DataFrame \<Rightarrow> int \<Rightarrow> error + 'f DataFrame" where
  "test_find_largest_trades fsum df n =
     (case groupby_agg_sum ''timestamp_us'' fsum df of
        Inl e \<Rightarrow> Inl e
      | Inr grouped \<Rightarrow> Inr (nlargest n grouped))"

text \<open>
  A frame of normalized trades carries the four columns that the grouping reads. Every
  frame that \<^verbatim>\<open>process_trades\<close> builds from at least one trade does.
\<close>

definition has_trade_columns :: "string \<Rightarrow> 'f DataFrame \<Rightarrow> bool" where
  "has_trade_columns tcol df =
     (set [tcol, ''side'', ''amount_btc'', ''amount_usdt''] \<subseteq> set (columns df))"

text \<open>
  The order in which the ranking lists two groups: the larger notional value first,
  and of two groups with equal notional values the one with the smaller key.
\<close>

definition ranks_before :: "'f::linorder trade_row \<Rightarrow> 'f trade_row \<Rightarrow> bool" where
  "ranks_before x y =
     (amount_usdt y < amount_usdt x \<or>
      amount_usdt x = amount_usdt y \<and> group_key x < group_key y)"

section \<open>Trade fetcher: \<^verbatim>\<open>get_trades\<close>\<close>

text \<open>
  The query parameters of one request, the dictionary \<^verbatim>\<open>params\<close>; a key the dictionary
  does not hold is \<open>None\<close>.
\<close>

record params =
  param_symbol :: string
  param_startTime :: "int option"
  param_endTime :: "int option"
  param_fromId :: "int option"
  param_limit :: int

text \<open>
  The exchange is the environment of the scripts. \<open>requests_get k params\<close> is what the
  request with the parameters \<open>params\<close> yields when \<open>k\<close> requests were made before it:
  \<open>None\<close> when \<^verbatim>\<open>requests.get\<close>, \<^verbatim>\<open>raise_for_status\<close> or \<^verbatim>\<open>json\<close> raises a
  \<^verbatim>\<open>RequestException\<close>, the decoded page otherwise. Every turn of the loop that goes on
  has counted a page, so the variable \<^verbatim>\<open>request_count\<close> is that \<open>k\<close>.
\<close>

type_synonym server = "nat \<Rightarrow> params \<Rightarrow> raw_trade list option"

text \<open>
  One turn of \<^verbatim>\<open>while True\<close>: the request raises, the loop breaks, or it goes on with a
  new count, new parameters and a longer list. Progress lines and the pause between
  requests are left out.
\<close>

datatype fetch_step =
  Raised
| Break nat "raw_trade list"
| Again nat params "raw_trade list"

definition get_trades_page ::
  "server \<Rightarrow> string \<Rightarrow> int \<Rightarrow> nat \<Rightarrow> params \<Rightarrow> raw_trade list \<Rightarrow> fetch_step" where
  "get_trades_page requests_get symbol end_time request_count params trades =
     (case requests_get request_count params of
        None \<Rightarrow> Raised
      | Some page \<Rightarrow>
          if page = [] then Break request_count trades
          else if trade_T (last page) \<ge> end_time
            then Break (request_count + 1) (trades @ page)
          else Again (request_count + 1)
                 \<lparr>param_symbol = symbol, param_startTime = None, param_endTime = None,
                  param_fromId = Some (trade_a (last page) + 1), param_limit = 1000\<rparr>
                 (trades @ page))"

definition test_get_trades_page ::
  "server \<Rightarrow> int \<Rightarrow> nat \<Rightarrow> params \<Rightarrow> raw_trade list \<Rightarrow> fetch_step" where
  "test_get_trades_page requests_get end_time request_count params trades =
     (case requests_get request_count params of
        None \<Rightarrow> Raised
      | Some page \<Rightarrow>
          if page = [] then Break request_count trades
          else
            (let startTime = trade_T (last page) + 1 in
             if startTime \<ge> end_time
               then Break (request_count + 1) (trades @ page)
             else Again (request_count + 1) (params\<lparr>param_startTime := Some startTime\<rparr>)
                    (trades @ page)))"

text \<open>
  The loop may never end (nothing bounds what the exchange answers), so its result is
  an option: \<open>None\<close> when it runs forever. \<open>Failed\<close> is the \<^verbatim>\<open>except\<close> branch.
\<close>

datatype fetch_result = Failed | Fetched nat "raw_trade list"

partial_function (option) get_trades_loop ::
  "server \<Rightarrow> string \<Rightarrow> int \<Rightarrow> nat \<Rightarrow> params \<Rightarrow> raw_trade list \<Rightarrow> fetch_result option" where
  "get_trades_loop requests_get symbol end_time request_count params trades =
     (case get_trades_page requests_get symbol end_time request_count params trades of
        Raised \<Rightarrow> Some Failed
      | Break request_count' trades' \<Rightarrow> Some (Fetched request_count' trades')
      | Again request_count' params' trades' \<Rightarrow>
          get_trades_loop requests_get symbol end_time request_count' params' trades')"

partial_function (option) test_get_trades_loop ::
  "server \<Rightarrow> int \<Rightarrow> nat \<Rightarrow> params \<Rightarrow> raw_trade list \<Rightarrow> fetch_result option" where
  "test_get_trades_loop requests_get end_time request_count params trades =
     (case test_get_trades_page requests_get end_time request_count params trades of
        Raised \<Rightarrow> Some Failed
      | Break request_count' trades' \<Rightarrow> Some (Fetched request_count' trades')
      | Again request_count' params' trades' \<Rightarrow>
          test_get_trades_loop requests_get end_time request_count' params' trades')"

definition get_trades :: "server \<Rightarrow> string \<Rightarrow> int \<Rightarrow> int \<Rightarrow> raw_trade list option" where
  "get_trades requests_get symbol start_time end_time =
     (case get_trades_loop requests_get symbol end_time 0
             \<lparr>param_symbol = symbol, param_startTime = Some start_time, param_endTime = None,
              param_fromId = None, param_limit = 1000\<rparr> [] of
        None \<Rightarrow> None
      | Some Failed \<Rightarrow> Some []
      | Some (Fetched request_count trades) \<Rightarrow>
          Some (filter (\<lambda>trade. start_time \<le> trade_T trade \<and> trade_T trade \<le> end_time) trades))"

definition test_get_trades :: "server \<Rightarrow> string \<Rightarrow> int \<Rightarrow> int \<Rightarrow> raw_trade list option" where
  "test_get_trades requests_get symbol start_time end_time =
     (case test_get_trades_loop requests_get end_time 0
             \<lparr>param_symbol = symbol, param_startTime = Some start_time,
              param_endTime = Some end_time, param_fromId = None, param_limit = 1000\<rparr> [] of
        None \<Rightarrow> None
      | Some Failed \<Rightarrow> Some []
      | Some (Fetched request_count trades) \<Rightarrow> Some trades)"

text \<open>
  The state of the loop after \<open>k\<close> further turns that all went on (\<open>None\<close> when one of
  them raised or broke): the count, the parameters and the trades accumulated so far.
\<close>

fun get_trades_turns ::
  "server \<Rightarrow> string \<Rightarrow> int \<Rightarrow> nat \<Rightarrow> nat \<times> params \<times> raw_trade list
    \<Rightarrow> (nat \<times> params \<times> raw_trade list) option" where
  "get_trades_turns requests_get symbol end_time 0 st = Some st"
| "get_trades_turns requests_get symbol end_time (Suc k) (request_count, params, trades) =
     (case get_trades_page requests_get symbol end_time request_count params trades of
        Again request_count' params' trades' \<Rightarrow>
          get_trades_turns requests_get symbol end_time k (request_count', params', trades')
      | _ \<Rightarrow> None)"

fun test_get_trades_turns ::
  "server \<Rightarrow> int \<Rightarrow> nat \<Rightarrow> nat \<times> params \<times> raw_trade list
    \<Rightarrow> (nat \<times> params \<times> raw_trade list) option" where
  "test_get_trades_turns requests_get end_time 0 st = Some st"
| "test_get_trades_turns requests_get end_time (Suc k) (request_count, params, trades) =
     (case test_get_trades_page requests_get end_time request_count params trades of
        Again request_count' params' trades' \<Rightarrow>
          test_get_trades_turns requests_get end_time k (request_count', params', trades')
      | _ \<Rightarrow> None)"

text \<open>
  An exchange that answers every request from one fixed history of trades, as the
  endpoint is documented: the trades from \<^verbatim>\<open>fromId\<close> on, from \<^verbatim>\<open>startTime\<close> on and up
  to \<^verbatim>\<open>endTime\<close> (each bound inclusive, each only when given), in the order of the
  history, at most \<^verbatim>\<open>limit\<close> of them. It never fails.
\<close>

definition aggTrades :: "raw_trade list \<Rightarrow> server" where
  "aggTrades history k params =
     Some (take (nat (param_limit params))
       (filter (\<lambda>t.
          (case param_fromId params of None \<Rightarrow> True | Some i \<Rightarrow> i \<le> trade_a t) \<and>
          (case param_startTime params of None \<Rightarrow> True | Some s \<Rightarrow> s \<le> trade_T t) \<and>
          (case param_endTime params of None \<Rightarrow> True | Some e \<Rightarrow> trade_T t \<le> e)) history))"

section \<open>Reporter and entry point: \<^verbatim>\<open>main\<close>\<close>

text \<open>
  The table that \<^verbatim>\<open>main\<close> prints once \<^verbatim>\<open>find_largest_trades\<close> has returned: the
  title, the header line, the rule of sixty dashes and one line per row. The header
  holds the letter mu, written here as the bytes of its UTF-8 encoding (in \<^verbatim>\<open>test.py\<close>
  the letter is stored mis-decoded, as two other letters). Rounding a float to three
  places and printing it with three places are the parameters \<open>round3\<close> and \<open>fmt3\<close>.
\<close>

definition pad_left :: "nat \<Rightarrow> string \<Rightarrow> string" where
  "pad_left w s = replicate (w - length s) CHR '' '' @ s"

definition pad_right :: "nat \<Rightarrow> string \<Rightarrow> string" where
  "pad_right w s = s @ replicate (w - length s) CHR '' ''"

fun show_nat :: "nat \<Rightarrow> string" where
  "show_nat n =
     (if n < 10 then [char_of (48 + n)] else show_nat (n div 10) @ [char_of (48 + n mod 10)])"

definition show_int :: "int \<Rightarrow> string" where
  "show_int i = (if i < 0 then CHR ''-'' # show_nat (nat (- i)) else show_nat (nat i))"

definition format_row :: "('f \<Rightarrow> 'f) \<Rightarrow> ('f \<Rightarrow> string) \<Rightarrow> 'f trade_row \<Rightarrow> string" where
  "format_row round3 fmt3 r =
     pad_left 15 (show_int (timestamp_us r)) @ '' '' @
     pad_left 13 (fmt3 (round3 (amount_btc r))) @ '' '' @
     pad_left 15 (fmt3 (round3 (amount_usdt r))) @ '' '' @
     pad_right 4 (side r)"

definition table_header :: string where
  "table_header =
     ''Timestamp ('' @ [CHR 0xCE, CHR 0xBC] @ ''s)    Amount (BTC)    Amount (USDT)    Side''"

definition test_table_header :: string where
  "test_table_header =
     ''Timestamp ('' @ [CHR 0xC3, CHR 0x8E, CHR 0xC2, CHR 0xBC] @
     ''s)    Amount (BTC)    Amount (USDT)    Side''"

definition print_table ::
  "string \<Rightarrow> ('f \<Rightarrow> 'f) \<Rightarrow> ('f \<Rightarrow> string) \<Rightarrow> 'f trade_row list \<Rightarrow> string list" where
  "print_table header round3 fmt3 formatted_trades =
     ['''', ''Top 5 BTC/USDT Taker Trades:'', header, replicate 60 CHR ''-''] @
     map (format_row round3 fmt3) formatted_trades"

text \<open>
  \<^verbatim>\<open>main\<close> with its constant window. An exception of \<^verbatim>\<open>process_trades\<close> or
  \<^verbatim>\<open>find_largest_trades\<close> is caught nowhere and ends the run before the table.
\<close>

definition main ::
  "server \<Rightarrow> (string \<Rightarrow> 'f option) \<Rightarrow> ('f \<Rightarrow> 'f \<Rightarrow> 'f) \<Rightarrow> ('f list \<Rightarrow> 'f) \<Rightarrow> ('f \<Rightarrow> 'f)
    \<Rightarrow> ('f::linorder \<Rightarrow> string) \<Rightarrow> (error + string list) option" where
  "main requests_get float_of fmul fsum round3 fmt3 =
     (let start_time = 1737392400000 * 1000; end_time = 1737478800000 * 1000 in
      case get_trades requests_get ''BTCUSDT'' start_time end_time of
        None \<Rightarrow> None
      | Some trades \<Rightarrow>
          Some (case process_trades float_of fmul trades of
                  Inl e \<Rightarrow> Inl e
                | Inr df \<Rightarrow>
                    (case find_largest_trades fsum df 5 of
                       Inl e \<Rightarrow> Inl e
                     | Inr largest_trades \<Rightarrow>
                         Inr (print_table table_header round3 fmt3 (rows largest_trades)))))"

definition test_main ::
  "server \<Rightarrow> (string \<Rightarrow> 'f option) \<Rightarrow> ('f \<Rightarrow> 'f \<Rightarrow> 'f) \<Rightarrow> ('f list \<Rightarrow> 'f) \<Rightarrow> ('f \<Rightarrow> 'f)
    \<Rightarrow> ('f::linorder \<Rightarrow> string) \<Rightarrow> (error + string list) option" where
  "test_main requests_get float_of fmul fsum round3 fmt3 =
     (let start_time = 1737392400000 * 1000; end_time = 1737478800000 * 1000 in
      case test_get_trades requests_get ''BTCUSDT'' start_time end_time of
        None \<Rightarrow> None
      | Some trades \<Rightarrow>
          Some (case test_process_trades float_of fmul trades of
                  Inl e \<Rightarrow> Inl e
                | Inr df \<Rightarrow>
                    (case test_find_largest_trades fsum df 5 of
                       Inl e \<Rightarrow> Inl e
                     | Inr largest_trades \<Rightarrow>
                         Inr (print_table test_table_header round3 fmt3 (rows largest_trades)))))"

section \<open>Concrete inputs\<close>

text \<open>
  For the examples the float operations are read as exact arithmetic on rationals and
  \<^verbatim>\<open>float\<close> as the reading of a plain decimal numeral. On the numbers of the examples
  (\<open>1.0\<close>, \<open>0.5\<close>, \<open>50000.0\<close> and their sums and products) binary floating point is exact
  too, so Python computes the same values there.
\<close>

definition digit_val :: "char \<Rightarrow> nat option" where
  "digit_val c = map_of (zip ''0123456789'' [0..<10]) c"

fun digits_val :: "nat \<Rightarrow> string \<Rightarrow> nat option" where
  "digits_val acc [] = Some acc"
| "digits_val acc (c # cs) =
     (case digit_val c of None \<Rightarrow> None | Some d \<Rightarrow> digits_val (10 * acc + d) cs)"

definition decimal_of :: "string \<Rightarrow> rat option" where
  "decimal_of s =
     (let whole = takeWhile (\<lambda>c. c \<noteq> CHR ''.'') s; frac = drop (Suc (length whole)) s in
      if whole = [] then None
      else case (digits_val 0 whole, digits_val 0 frac) of
             (Some w, Some f) \<Rightarrow> Some (of_nat w + of_nat f / 10 ^ length frac)
           | _ \<Rightarrow> None)"

text \<open>The two raw trades of the spec's end-to-end scenario.\<close>

definition example_trades :: "raw_trade list" where
  "example_trades =
     [\<lparr>trade_a = 1, trade_p = ''50000.0'', trade_q = ''1.0'', trade_T = 1000000, trade_m = False\<rparr>,
      \<lparr>trade_a = 2, trade_p = ''50000.0'', trade_q = ''0.5'', trade_T = 1000000, trade_m = False\<rparr>]"

text \<open>
  Two histories of 1001 trades with the ids 0 to 1000, one more than a page holds. In
  \<open>burst_history\<close> the trades 999 and 1000 carry the same timestamp 999; in
  \<open>ticking_history\<close> every trade has its id as timestamp.
\<close>

definition burst_trade :: "nat \<Rightarrow> raw_trade" where
  "burst_trade i =
     \<lparr>trade_a = int i, trade_p = ''50000.0'', trade_q = ''1.0'', trade_T = min (int i) 999,
      trade_m = False\<rparr>"

definition burst_history :: "raw_trade list" where
  "burst_history = map burst_trade [0..<1001]"

definition ticking_trade :: "nat \<Rightarrow> raw_trade" where
  "ticking_trade i =
     \<lparr>trade_a = int i, trade_p = ''50000.0'', trade_q = ''1.0'', trade_T = int i,
      trade_m = False\<rparr>"

definition ticking_history :: "raw_trade list" where
  "ticking_history = map ticking_trade [0..<1001]"


text \<open>
  A frame of six trades in five groups, three of which tie at the notional value 100.
\<close>

definition tie_frame :: "rat DataFrame" where
  "tie_frame = pd_DataFrame ''T''
     [\<lparr>timestamp_us = 30, amount_btc = 1, amount_usdt = 100, side = ''SELL''\<rparr>,
      \<lparr>timestamp_us = 40, amount_btc = 1, amount_usdt = 100, side = ''BUY''\<rparr>,
      \<lparr>timestamp_us = 10, amount_btc = 1, amount_usdt = 100, side = ''SELL''\<rparr>,
      \<lparr>timestamp_us = 10, amount_btc = 1, amount_usdt = 100, side = ''BUY''\<rparr>,
      \<lparr>timestamp_us = 20, amount_btc = 2, amount_usdt = 300, side = ''BUY''\<rparr>,
      \<lparr>timestamp_us = 30, amount_btc = 1 / 2, amount_usdt = 50, side = ''SELL''\<rparr>]"

text \<open>
  An exchange whose first reply is one trade inside the window and whose second
  request fails.
\<close>

definition failing_server :: server where
  "failing_server k params =
     (if k = 0
      then Some [\<lparr>trade_a = 7, trade_p = ''50000.0'', trade_q = ''1.0'', trade_T = 5,
                   trade_m = False\<rparr>]
      else None)"

section \<open>The numbers a float can hold\<close>

text \<open>
  A finite Python \<^verbatim>\<open>float\<close> is a binary fraction \<open>m \<times> 2\<^sup>e\<close> with an integer \<open>m\<close> of at
  most 53 bits. Read on the reduced fraction of a rational: the denominator is a power
  of two and the numerator, freed of its factors of two, is below \<open>2\<^sup>5\<^sup>3\<close>. (The range
  of the exponent plays no role here; with it, fewer numbers still would qualify.)
\<close>

fun odd_part :: "nat \<Rightarrow> nat" where
  "odd_part n = (if n = 0 \<or> odd n then n else odd_part (n div 2))"

definition is_float :: "rat \<Rightarrow> bool" where
  "is_float x =
     (case quotient_of x of
        (n, d) \<Rightarrow> odd_part (nat d) = 1 \<and> odd_part (nat \<bar>n\<bar>) < 2 ^ 53)"

text \<open>
  The values of \<^verbatim>\<open>float("0.1")\<close> and \<^verbatim>\<open>float("0.2")\<close>, the floats next to one tenth and
  one fifth.
\<close>

definition float_tenth :: rat where
  "float_tenth = 3602879701896397 / 36028797018963968"

definition float_fifth :: rat where
  "float_fifth = 3602879701896397 / 18014398509481984"

text \<open>A raw trade of a tenth of a coin, and its decimal quantity read exactly.\<close>

definition tenth_trade :: raw_trade where
  "tenth_trade =
     \<lparr>trade_a = 1, trade_p = ''50000.0'', trade_q = ''0.1'', trade_T = 1000000, trade_m = False\<rparr>"

text \<open>
  A frame of two normalized trades in one group, of \<^verbatim>\<open>float("0.1")\<close> and
  \<^verbatim>\<open>float("0.2")\<close> coins at the price 50000, as \<^verbatim>\<open>process_trades\<close> builds it.
\<close>

definition dime_frame :: "rat DataFrame" where
  "dime_frame = pd_DataFrame ''T''
     [\<lparr>timestamp_us = 1000000, amount_btc = float_tenth, amount_usdt = 5000, side = ''BUY''\<rparr>,
      \<lparr>timestamp_us = 1000000, amount_btc = float_fifth, amount_usdt = 10000, side = ''BUY''\<rparr>]"

section \<open>Properties of the normalizer\<close>

lemma process_trades_loop_Inr:
  "process_trades_loop float_of fmul trades acc = Inr out \<Longrightarrow>
     out = acc @ map (processed float_of fmul) trades \<and> list_all (parses float_of) trades"
proof (induction trades arbitrary: acc)
  case Nil
  then show ?case by simp
next
  case (Cons t ts)
  from Cons.prems obtain qty price where
    q: "float_of (trade_q t) = Some qty" and p: "float_of (trade_p t) = Some price"
    by (auto split: option.splits)
  with Cons.prems have
    "process_trades_loop float_of fmul ts (acc @ [processed float_of fmul t]) = Inr out"
    by (simp add: processed_def)
  from Cons.IH [OF this] q p show ?case
    by (simp add: parses_def)
qed

lemma process_trades_loop_total:
  "list_all (parses float_of) trades \<Longrightarrow>
     process_trades_loop float_of fmul trades acc = Inr (acc @ map (processed float_of fmul) trades)"
proof (induction trades arbitrary: acc)
  case Nil
  then show ?case by simp
next
  case (Cons t ts)
  then show ?case
    by (auto simp: parses_def processed_def)
qed

lemma test_process_trades_loop_Inr:
  "test_process_trades_loop float_of fmul trades acc = Inr out \<Longrightarrow>
     out = acc @ map (processed float_of fmul) trades \<and> list_all (parses float_of) trades"
proof (induction trades arbitrary: acc)
  case Nil
  then show ?case by simp
next
  case (Cons t ts)
  from Cons.prems obtain qty price where
    q: "float_of (trade_q t) = Some qty" and p: "float_of (trade_p t) = Some price"
    by (auto split: option.splits)
  with Cons.prems have
    "test_process_trades_loop float_of fmul ts (acc @ [processed float_of fmul t]) = Inr out"
    by (cases "trade_m t") (simp_all add: processed_def)
  from Cons.IH [OF this] q p show ?case
    by (simp add: parses_def)
qed

lemma test_process_trades_loop_total:
  "list_all (parses float_of) trades \<Longrightarrow>
     test_process_trades_loop float_of fmul trades acc =
       Inr (acc @ map (processed float_of fmul) trades)"
proof (induction trades arbitrary: acc)
  case Nil
  then show ?case by simp
next
  case (Cons t ts)
  then show ?case
    by (auto simp: parses_def processed_def)
qed

lemma process_trades_rows:
  "process_trades float_of fmul trades = Inr df \<Longrightarrow>
     rows df = map (processed float_of fmul) trades"
  by (auto simp: process_trades_def pd_DataFrame_def split: sum.splits
      dest: process_trades_loop_Inr)

lemma test_process_trades_rows:
  "test_process_trades float_of fmul trades = Inr df \<Longrightarrow>
     rows df = map (processed float_of fmul) trades"
  by (auto simp: test_process_trades_def pd_DataFrame_def split: sum.splits
      dest: test_process_trades_loop_Inr)

lemma process_trades_total:
  "list_all (parses float_of) trades \<Longrightarrow>
     process_trades float_of fmul trades =
       Inr (pd_DataFrame ''T'' (map (processed float_of fmul) trades))"
  by (simp add: process_trades_def process_trades_loop_total)

lemma test_process_trades_total:
  "list_all (parses float_of) trades \<Longrightarrow>
     test_process_trades float_of fmul trades =
       Inr (pd_DataFrame ''timestamp_us'' (map (processed float_of fmul) trades))"
  by (simp add: test_process_trades_def test_process_trades_loop_total)

lemma decimal_examples:
  "decimal_of ''50000.0'' = Some 50000" "decimal_of ''1.0'' = Some 1" "decimal_of ''0.5'' = Some (1/2)"
  by (simp_all add: decimal_of_def digit_val_def upt_rec)

lemma example_trades_parse: "list_all (parses decimal_of) example_trades"
  by (simp add: example_trades_def parses_def decimal_examples)


text \<open>
  Claim C6. In both scripts the side of every processed trade is decided by the
  buyer-is-maker flag of its raw trade and by nothing else: the column of sides is the
  column of flags mapped through one function, which gives \<open>SELL\<close> for a true flag and
  \<open>BUY\<close> for a false one.
\<close>

theorem process_trades_side:
  assumes "process_trades float_of fmul trades = Inr df"
    and "test_process_trades float_of fmul trades = Inr df'"
  shows "map side (rows df) = map (\<lambda>t. if trade_m t then ''SELL'' else ''BUY'') trades \<and>
         map side (rows df') = map (\<lambda>t. if trade_m t then ''SELL'' else ''BUY'') trades"
  using process_trades_rows [OF assms(1)] test_process_trades_rows [OF assms(2)]
  by (simp add: processed_def)

theorem process_trades_side_witness:
  "process_trades decimal_of (*) example_trades =
     Inr (pd_DataFrame ''T'' (map (processed decimal_of (*)) example_trades)) \<and>
   test_process_trades decimal_of (*) example_trades =
     Inr (pd_DataFrame ''timestamp_us'' (map (processed decimal_of (*)) example_trades)) \<and>
   map side (rows (pd_DataFrame ''T'' (map (processed decimal_of (*)) example_trades))) =
     [''BUY'', ''BUY'']"
proof -
  have a: "process_trades decimal_of (*) example_trades =
     Inr (pd_DataFrame ''T'' (map (processed decimal_of (*)) example_trades))"
    by (rule process_trades_total [OF example_trades_parse])
  have b: "test_process_trades decimal_of (*) example_trades =
     Inr (pd_DataFrame ''timestamp_us'' (map (processed decimal_of (*)) example_trades))"
    by (rule test_process_trades_total [OF example_trades_parse])
  from process_trades_side [OF a b] a b show ?thesis
    by (simp add: example_trades_def)
qed

text \<open>
  Claim C7. When the price and the quantity of every raw trade are numerals that
  \<^verbatim>\<open>float\<close> accepts, \<^verbatim>\<open>process_trades\<close> returns, in both scripts, a frame with exactly one
  row per raw trade in the order of the input: the timestamps and the parsed
  quantities are those of the raw trades, position by position. Hence every way
  \<open>fsum\<close> of summing a column gives the same total on the quantities of the rows as on
  the parsed quantities of the raw trades.
\<close>

theorem process_trades_one_to_one:
  assumes "list_all (parses float_of) trades"
  shows "\<exists>df df'. process_trades float_of fmul trades = Inr df \<and>
           test_process_trades float_of fmul trades = Inr df' \<and>
           rows df' = rows df \<and>
           length (rows df) = length trades \<and>
           map timestamp_us (rows df) = map trade_T trades \<and>
           map (\<lambda>r. Some (amount_btc r)) (rows df) = map (\<lambda>t. float_of (trade_q t)) trades \<and>
           fsum (map amount_btc (rows df)) = fsum (map (\<lambda>t. the (float_of (trade_q t))) trades)"
proof -
  have q: "map (\<lambda>t. Some (the (float_of (trade_q t)))) trades = map (\<lambda>t. float_of (trade_q t)) trades"
    using assms by (induction trades) (auto simp: parses_def)
  show ?thesis
    using q
    by (simp add: process_trades_total [OF assms] test_process_trades_total [OF assms]
        pd_DataFrame_def processed_def comp_def)
qed

theorem process_trades_one_to_one_witness:
  "list_all (parses decimal_of) example_trades \<and>
   (\<exists>df. process_trades decimal_of (*) example_trades = Inr df \<and>
      length (rows df) = 2 \<and>
      sum_list (map amount_btc (rows df)) = 3/2)"
proof -
  from process_trades_one_to_one [OF example_trades_parse, of "(*)" sum_list]
  obtain df where "process_trades decimal_of (*) example_trades = Inr df"
    and "length (rows df) = length example_trades"
    and "sum_list (map amount_btc (rows df)) =
         sum_list (map (\<lambda>t. the (decimal_of (trade_q t))) example_trades)"
    by blast
  then show ?thesis
    using example_trades_parse
    by (auto simp: example_trades_def decimal_examples)
qed

section \<open>Properties of the aggregator and ranker\<close>

lemma group_key_agg_sum: "group_key (agg_sum fsum rs k) = k"
  by (simp add: group_key_def agg_sum_def)

lemma groupby_agg_sum_Inr:
  "has_trade_columns tcol df \<Longrightarrow>
     groupby_agg_sum tcol fsum df =
       Inr \<lparr>columns = [tcol, ''side'', ''amount_btc'', ''amount_usdt''],
            rows = map (agg_sum fsum (rows df)) (sort (remdups (map group_key (rows df))))\<rparr>"
  by (simp add: groupby_agg_sum_def has_trade_columns_def)

lemma grouped_keys:
  "map group_key (map (agg_sum fsum rs) (sort (remdups (map group_key rs)))) =
     sort (remdups (map group_key rs))"
  by (simp add: comp_def group_key_agg_sum)

lemma grouped_keys_sorted:
  "sorted_wrt (<) (sort (remdups (map group_key rs)))"
  by (simp add: strict_sorted_iff)





lemma set_insert_desc: "set (insert_desc x ys) = insert x (set ys)"
  by (induction ys) auto

lemma length_insert_desc: "length (insert_desc x ys) = Suc (length ys)"
  by (induction ys) auto

lemma set_sort_desc: "set (sort_desc rs) = set rs"
  by (induction rs) (simp_all add: sort_desc_def set_insert_desc)

lemma length_sort_desc: "length (sort_desc rs) = length rs"
  by (induction rs) (simp_all add: sort_desc_def length_insert_desc)

lemma insert_desc_descending:
  "sorted_wrt (\<lambda>x y. amount_usdt y \<le> amount_usdt x) ys \<Longrightarrow>
     sorted_wrt (\<lambda>x y. amount_usdt y \<le> amount_usdt x) (insert_desc x ys)"
  by (induction ys) (auto simp: set_insert_desc)

lemma sort_desc_descending:
  "sorted_wrt (\<lambda>x y. amount_usdt y \<le> amount_usdt x) (sort_desc rs)"
  by (induction rs) (simp_all add: sort_desc_def insert_desc_descending)

lemma filter_insert_desc:
  "filter (\<lambda>r. amount_usdt r = v) (insert_desc x ys) =
     filter (\<lambda>r. amount_usdt r = v) (x # ys)"
proof (induction ys)
  case Nil
  then show ?case by simp
next
  case (Cons y ys)
  then show ?case by auto
qed

text \<open>
  The ranking is stable: rows with one notional value keep the order they have in the
  frame.
\<close>

lemma sort_desc_stable:
  "filter (\<lambda>r. amount_usdt r = v) (sort_desc rs) = filter (\<lambda>r. amount_usdt r = v) rs"
proof (induction rs)
  case Nil
  then show ?case by (simp add: sort_desc_def)
next
  case (Cons r rs)
  have "sort_desc (r # rs) = insert_desc r (sort_desc rs)" by (simp add: sort_desc_def)
  then show ?case using Cons by (simp add: filter_insert_desc)
qed

lemma nlargest_rows:
  "0 \<le> n \<Longrightarrow> rows (nlargest n df) = take (nat n) (sort_desc (rows df))"
  by (simp add: nlargest_def)

lemma find_largest_trades_Inr:
  "groupby_agg_sum ''T'' fsum df = Inr grouped \<Longrightarrow>
     find_largest_trades fsum df n = Inr (nlargest n grouped)"
  by (simp add: find_largest_trades_def)

lemma test_find_largest_trades_Inr:
  "groupby_agg_sum ''timestamp_us'' fsum df = Inr grouped \<Longrightarrow>
     test_find_largest_trades fsum df n = Inr (nlargest n grouped)"
  by (simp add: test_find_largest_trades_def)

lemma ranked_top:
  assumes "groupby_agg_sum tcol fsum df = Inr grouped" and "0 \<le> n"
  shows "sorted_wrt (\<lambda>x y. amount_usdt y \<le> amount_usdt x) (rows (nlargest n grouped)) \<and>
         length (rows (nlargest n grouped)) = min (nat n) (card (group_key ` set (rows df)))"
proof -
  from assms(1) have g: "rows grouped =
      map (agg_sum fsum (rows df)) (sort (remdups (map group_key (rows df))))"
    by (auto simp: groupby_agg_sum_def split: if_splits)
  have "length (rows grouped) = card (group_key ` set (rows df))"
    unfolding g by (simp add: length_remdups_card_conv)
  moreover have "sorted_wrt (\<lambda>x y. amount_usdt y \<le> amount_usdt x)
      (take (nat n) (sort_desc (rows grouped)))"
    by (rule sorted_wrt_take [OF sort_desc_descending])
  ultimately show ?thesis
    using assms(2) by (simp add: nlargest_rows length_sort_desc min.commute)
qed

lemma tie_frame_columns: "has_trade_columns ''T'' tie_frame"
  by (simp add: tie_frame_def has_trade_columns_def pd_DataFrame_def)

lemma tie_frame_keys:
  "sort (remdups (map group_key (rows tie_frame))) =
     [(10, ''BUY''), (10, ''SELL''), (20, ''BUY''), (30, ''SELL''), (40, ''BUY'')]"
  by (simp add: tie_frame_def pd_DataFrame_def group_key_def)

lemma tie_frame_grouped:
  "groupby_agg_sum ''T'' sum_list tie_frame =
     Inr \<lparr>columns = [''T'', ''side'', ''amount_btc'', ''amount_usdt''],
          rows = [\<lparr>timestamp_us = 10, amount_btc = 1, amount_usdt = 100, side = ''BUY''\<rparr>,
                  \<lparr>timestamp_us = 10, amount_btc = 1, amount_usdt = 100, side = ''SELL''\<rparr>,
                  \<lparr>timestamp_us = 20, amount_btc = 2, amount_usdt = 300, side = ''BUY''\<rparr>,
                  \<lparr>timestamp_us = 30, amount_btc = 3 / 2, amount_usdt = 150, side = ''SELL''\<rparr>,
                  \<lparr>timestamp_us = 40, amount_btc = 1, amount_usdt = 100, side = ''BUY''\<rparr>]\<rparr>"
  unfolding groupby_agg_sum_Inr [OF tie_frame_columns] tie_frame_keys
  by (simp add: tie_frame_def pd_DataFrame_def agg_sum_def group_members_def group_key_def)

lemma tie_frame_top3:
  "find_largest_trades sum_list tie_frame 3 =
     Inr \<lparr>columns = [''T'', ''side'', ''amount_btc'', ''amount_usdt''],
          rows = [\<lparr>timestamp_us = 20, amount_btc = 2, amount_usdt = 300, side = ''BUY''\<rparr>,
                  \<lparr>timestamp_us = 30, amount_btc = 3 / 2, amount_usdt = 150, side = ''SELL''\<rparr>,
                  \<lparr>timestamp_us = 10, amount_btc = 1, amount_usdt = 100, side = ''BUY''\<rparr>]\<rparr>"
  by (simp add: find_largest_trades_def tie_frame_grouped nlargest_def sort_desc_def)

lemma tie_frame_top5:
  "find_largest_trades sum_list tie_frame 5 =
     Inr \<lparr>columns = [''T'', ''side'', ''amount_btc'', ''amount_usdt''],
          rows = [\<lparr>timestamp_us = 20, amount_btc = 2, amount_usdt = 300, side = ''BUY''\<rparr>,
                  \<lparr>timestamp_us = 30, amount_btc = 3 / 2, amount_usdt = 150, side = ''SELL''\<rparr>,
                  \<lparr>timestamp_us = 10, amount_btc = 1, amount_usdt = 100, side = ''BUY''\<rparr>,
                  \<lparr>timestamp_us = 10, amount_btc = 1, amount_usdt = 100, side = ''SELL''\<rparr>,
                  \<lparr>timestamp_us = 40, amount_btc = 1, amount_usdt = 100, side = ''BUY''\<rparr>]\<rparr>"
  by (simp add: find_largest_trades_def tie_frame_grouped nlargest_def sort_desc_def)

text \<open>
  Claim C2. For a frame of normalized trades and a count \<open>n \<ge> 0\<close>, in both scripts
  \<^verbatim>\<open>find_largest_trades\<close> returns rows in descending order of the summed notional
  value, at most \<open>n\<close> of them, and fewer than \<open>n\<close> only when the frame has fewer than
  \<open>n\<close> distinct keys.
\<close>

theorem find_largest_trades_ranking:
  assumes "0 \<le> n"
  shows "(has_trade_columns ''T'' df \<longrightarrow>
           (\<exists>largest. find_largest_trades fsum df n = Inr largest \<and>
              sorted_wrt (\<lambda>x y. amount_usdt x \<ge> amount_usdt y) (rows largest) \<and>
              int (length (rows largest)) \<le> n \<and>
              (int (length (rows largest)) < n \<longrightarrow> int (card (group_key ` set (rows df))) < n))) \<and>
         (has_trade_columns ''timestamp_us'' df \<longrightarrow>
           (\<exists>largest. test_find_largest_trades fsum df n = Inr largest \<and>
              sorted_wrt (\<lambda>x y. amount_usdt x \<ge> amount_usdt y) (rows largest) \<and>
              int (length (rows largest)) \<le> n \<and>
              (int (length (rows largest)) < n \<longrightarrow> int (card (group_key ` set (rows df))) < n)))"
proof (intro conjI impI)
  assume cols: "has_trade_columns ''T'' df"
  let ?grouped = "\<lparr>columns = [''T'', ''side'', ''amount_btc'', ''amount_usdt''],
      rows = map (agg_sum fsum (rows df)) (sort (remdups (map group_key (rows df))))\<rparr>"
  have g: "groupby_agg_sum ''T'' fsum df = Inr ?grouped"
    by (rule groupby_agg_sum_Inr [OF cols])
  from ranked_top [OF g assms] find_largest_trades_Inr [OF g, of n] assms
  show "\<exists>largest. find_largest_trades fsum df n = Inr largest \<and>
              sorted_wrt (\<lambda>x y. amount_usdt x \<ge> amount_usdt y) (rows largest) \<and>
              int (length (rows largest)) \<le> n \<and>
              (int (length (rows largest)) < n \<longrightarrow> int (card (group_key ` set (rows df))) < n)"
    by auto
next
  assume cols: "has_trade_columns ''timestamp_us'' df"
  let ?grouped = "\<lparr>columns = [''timestamp_us'', ''side'', ''amount_btc'', ''amount_usdt''],
      rows = map (agg_sum fsum (rows df)) (sort (remdups (map group_key (rows df))))\<rparr>"
  have g: "groupby_agg_sum ''timestamp_us'' fsum df = Inr ?grouped"
    by (rule groupby_agg_sum_Inr [OF cols])
  from ranked_top [OF g assms] test_find_largest_trades_Inr [OF g, of n] assms
  show "\<exists>largest. test_find_largest_trades fsum df n = Inr largest \<and>
              sorted_wrt (\<lambda>x y. amount_usdt x \<ge> amount_usdt y) (rows largest) \<and>
              int (length (rows largest)) \<le> n \<and>
              (int (length (rows largest)) < n \<longrightarrow> int (card (group_key ` set (rows df))) < n)"
    by auto
qed

theorem find_largest_trades_ranking_witness:
  "(0::int) \<le> 5 \<and> has_trade_columns ''T'' tie_frame \<and>
   has_trade_columns ''timestamp_us'' (tie_frame\<lparr>columns := [''timestamp_us'', ''amount_btc'', ''amount_usdt'', ''side'']\<rparr>) \<and>
   (\<exists>largest. find_largest_trades sum_list tie_frame 5 = Inr largest \<and>
      sorted_wrt (\<lambda>x y. amount_usdt x \<ge> amount_usdt y) (rows largest) \<and>
      int (length (rows largest)) \<le> 5) \<and>
   (\<exists>largest. test_find_largest_trades sum_list
        (tie_frame\<lparr>columns := [''timestamp_us'', ''amount_btc'', ''amount_usdt'', ''side'']\<rparr>) 5 = Inr largest \<and>
      sorted_wrt (\<lambda>x y. amount_usdt x \<ge> amount_usdt y) (rows largest) \<and>
      int (length (rows largest)) \<le> 5)"
proof -
  have n: "(0::int) \<le> 5" by simp
  have c: "has_trade_columns ''timestamp_us''
      (tie_frame\<lparr>columns := [''timestamp_us'', ''amount_btc'', ''amount_usdt'', ''side'']\<rparr>)"
    by (simp add: has_trade_columns_def)
  from find_largest_trades_ranking [OF n, of tie_frame sum_list] tie_frame_columns
  have a: "\<exists>largest. find_largest_trades sum_list tie_frame 5 = Inr largest \<and>
      sorted_wrt (\<lambda>x y. amount_usdt x \<ge> amount_usdt y) (rows largest) \<and>
      int (length (rows largest)) \<le> 5"
    by blast
  from find_largest_trades_ranking [OF n,
      of "tie_frame\<lparr>columns := [''timestamp_us'', ''amount_btc'', ''amount_usdt'', ''side'']\<rparr>" sum_list] c
  have b: "\<exists>largest. test_find_largest_trades sum_list
        (tie_frame\<lparr>columns := [''timestamp_us'', ''amount_btc'', ''amount_usdt'', ''side'']\<rparr>) 5 = Inr largest \<and>
      sorted_wrt (\<lambda>x y. amount_usdt x \<ge> amount_usdt y) (rows largest) \<and>
      int (length (rows largest)) \<le> 5"
    by blast
  from n tie_frame_columns c a b show ?thesis by blast
qed

lemma ranks_before_trans: "ranks_before x y \<Longrightarrow> ranks_before y z \<Longrightarrow> ranks_before x z"
  by (auto simp: ranks_before_def)

lemma insert_desc_ranked:
  "sorted_wrt ranks_before ys \<Longrightarrow> \<forall>y\<in>set ys. group_key x < group_key y \<Longrightarrow>
     sorted_wrt ranks_before (insert_desc x ys)"
proof (induction ys)
  case Nil
  then show ?case by simp
next
  case (Cons y ys)
  show ?case
  proof (cases "amount_usdt y \<le> amount_usdt x")
    case True
    have xy: "ranks_before x y"
      using True Cons.prems(2) by (auto simp: ranks_before_def)
    have "\<forall>z\<in>set ys. ranks_before x z"
      using Cons.prems(1) xy by (auto intro: ranks_before_trans)
    with xy Cons.prems(1) True show ?thesis by simp
  next
    case False
    then have yx: "ranks_before y x" by (simp add: ranks_before_def not_le)
    from Cons have "sorted_wrt ranks_before (insert_desc x ys)" by simp
    with Cons.prems(1) yx False show ?thesis
      by (auto simp: set_insert_desc)
  qed
qed

lemma sort_desc_ranked:
  "sorted_wrt (<) (map group_key rs) \<Longrightarrow> sorted_wrt ranks_before (sort_desc rs)"
proof (induction rs)
  case Nil
  then show ?case by (simp add: sort_desc_def)
next
  case (Cons r rs)
  then have "sorted_wrt ranks_before (sort_desc rs)"
    and "\<forall>y\<in>set (sort_desc rs). group_key r < group_key y"
    by (auto simp: set_sort_desc)
  then have "sorted_wrt ranks_before (insert_desc r (sort_desc rs))"
    by (rule insert_desc_ranked)
  then show ?case by (simp add: sort_desc_def)
qed

lemma grouped_rows_sorted:
  assumes "groupby_agg_sum tcol fsum df = Inr grouped"
  shows "sorted_wrt (<) (map group_key (rows grouped))"
proof -
  from assms have g: "rows grouped =
      map (agg_sum fsum (rows df)) (sort (remdups (map group_key (rows df))))"
    by (auto simp: groupby_agg_sum_def split: if_splits)
  show ?thesis
    unfolding g grouped_keys by (rule grouped_keys_sorted)
qed

lemma nlargest_take:
  "\<exists>k. rows (nlargest n df) = take k (sort_desc (rows df))"
proof (cases "n \<le> 0")
  case True
  then have "rows (nlargest n df) = take 0 (sort_desc (rows df))"
    by (simp add: nlargest_def)
  then show ?thesis ..
next
  case False
  then have "rows (nlargest n df) = take (nat n) (sort_desc (rows df))"
    by (simp add: nlargest_def)
  then show ?thesis ..
qed

lemma tie_break:
  assumes g: "groupby_agg_sum tcol fsum df = Inr grouped"
  shows "(\<forall>i j. i < j \<and> j < length (rows (nlargest n grouped)) \<and>
            amount_usdt (rows (nlargest n grouped) ! i) = amount_usdt (rows (nlargest n grouped) ! j)
            \<longrightarrow> group_key (rows (nlargest n grouped) ! i) < group_key (rows (nlargest n grouped) ! j)) \<and>
         (\<forall>r\<in>set (rows (nlargest n grouped)). \<forall>g\<in>set (rows grouped).
            g \<notin> set (rows (nlargest n grouped)) \<and> amount_usdt g = amount_usdt r
            \<longrightarrow> group_key r < group_key g)"
proof -
  let ?s = "sort_desc (rows grouped)"
  obtain k where largest: "rows (nlargest n grouped) = take k ?s"
    using nlargest_take by blast
  have ranked: "sorted_wrt ranks_before ?s"
    by (rule sort_desc_ranked [OF grouped_rows_sorted [OF g]])
  have "sorted_wrt ranks_before (take k ?s @ drop k ?s)"
    using ranked by simp
  then have split: "sorted_wrt ranks_before (take k ?s)"
    "\<forall>x\<in>set (take k ?s). \<forall>y\<in>set (drop k ?s). ranks_before x y"
    unfolding sorted_wrt_append by blast+
  have first: "\<forall>i j. i < j \<and> j < length (take k ?s) \<and>
      amount_usdt (take k ?s ! i) = amount_usdt (take k ?s ! j)
      \<longrightarrow> group_key (take k ?s ! i) < group_key (take k ?s ! j)"
  proof (intro allI impI)
    fix i j
    assume a: "i < j \<and> j < length (take k ?s) \<and>
      amount_usdt (take k ?s ! i) = amount_usdt (take k ?s ! j)"
    then have "ranks_before (take k ?s ! i) (take k ?s ! j)"
      using split(1) unfolding sorted_wrt_iff_nth_less by blast
    with a show "group_key (take k ?s ! i) < group_key (take k ?s ! j)"
      unfolding ranks_before_def by (metis order_less_irrefl)
  qed
  have second: "\<forall>r\<in>set (take k ?s). \<forall>g\<in>set (rows grouped).
      g \<notin> set (take k ?s) \<and> amount_usdt g = amount_usdt r \<longrightarrow> group_key r < group_key g"
  proof (intro ballI impI)
    fix r g
    assume r: "r \<in> set (take k ?s)" and gin: "g \<in> set (rows grouped)"
      and b: "g \<notin> set (take k ?s) \<and> amount_usdt g = amount_usdt r"
    from gin have "g \<in> set (take k ?s) \<union> set (drop k ?s)"
      unfolding set_append [symmetric] append_take_drop_id by (simp add: set_sort_desc)
    with b have "g \<in> set (drop k ?s)" by blast
    with r split(2) have "ranks_before r g" by blast
    with b show "group_key r < group_key g" by (simp add: ranks_before_def)
  qed
  from first second show ?thesis unfolding largest by blast
qed

text \<open>
  Claim C10. The result of \<^verbatim>\<open>find_largest_trades\<close> is a function of its input, and ties
  are broken by the key: the grouped table is in strictly ascending order of
  (timestamp, side); of two returned rows with equal notional values the one with
  the smaller key comes first; a group that is left out while a group with the same
  notional value is returned has the larger key; and at equal timestamps the key of
  \<open>BUY\<close> is smaller than the key of \<open>SELL\<close>.
\<close>

theorem find_largest_trades_tie_break:
  assumes "groupby_agg_sum tcol fsum df = Inr grouped"
    and "largest = rows (nlargest n grouped)"
  shows "(tcol = ''T'' \<longrightarrow> find_largest_trades fsum df n = Inr (nlargest n grouped)) \<and>
         (tcol = ''timestamp_us'' \<longrightarrow>
            test_find_largest_trades fsum df n = Inr (nlargest n grouped)) \<and>
         sorted_wrt (<) (map group_key (rows grouped)) \<and>
         (\<forall>i j. i < j \<and> j < length largest \<and> amount_usdt (largest ! i) = amount_usdt (largest ! j)
            \<longrightarrow> group_key (largest ! i) < group_key (largest ! j)) \<and>
         (\<forall>r\<in>set largest. \<forall>g\<in>set (rows grouped).
            g \<notin> set largest \<and> amount_usdt g = amount_usdt r \<longrightarrow> group_key r < group_key g) \<and>
         (\<forall>t. ((t, ''BUY'') :: int \<times> string) < (t, ''SELL''))"
proof -
  have "(tcol = ''T'' \<longrightarrow> find_largest_trades fsum df n = Inr (nlargest n grouped))"
    using assms(1) by (auto simp: find_largest_trades_def)
  moreover have "(tcol = ''timestamp_us'' \<longrightarrow>
            test_find_largest_trades fsum df n = Inr (nlargest n grouped))"
    using assms(1) by (auto simp: test_find_largest_trades_def)
  moreover note grouped_rows_sorted [OF assms(1)]
  moreover note tie_break [OF assms(1), of n]
  moreover have "\<forall>t. ((t, ''BUY'') :: int \<times> string) < (t, ''SELL'')"
    by simp
  ultimately show ?thesis
    unfolding assms(2) by blast
qed

theorem find_largest_trades_tie_break_witness:
  "groupby_agg_sum ''T'' sum_list tie_frame =
     Inr \<lparr>columns = [''T'', ''side'', ''amount_btc'', ''amount_usdt''],
          rows = [\<lparr>timestamp_us = 10, amount_btc = 1, amount_usdt = 100, side = ''BUY''\<rparr>,
                  \<lparr>timestamp_us = 10, amount_btc = 1, amount_usdt = 100, side = ''SELL''\<rparr>,
                  \<lparr>timestamp_us = 20, amount_btc = 2, amount_usdt = 300, side = ''BUY''\<rparr>,
                  \<lparr>timestamp_us = 30, amount_btc = 3 / 2, amount_usdt = 150, side = ''SELL''\<rparr>,
                  \<lparr>timestamp_us = 40, amount_btc = 1, amount_usdt = 100, side = ''BUY''\<rparr>]\<rparr> \<and>
   find_largest_trades sum_list tie_frame 3 =
     Inr (nlargest 3
       \<lparr>columns = [''T'', ''side'', ''amount_btc'', ''amount_usdt''],
          rows = [\<lparr>timestamp_us = 10, amount_btc = 1, amount_usdt = 100, side = ''BUY''\<rparr>,
                  \<lparr>timestamp_us = 10, amount_btc = 1, amount_usdt = 100, side = ''SELL''\<rparr>,
                  \<lparr>timestamp_us = 20, amount_btc = 2, amount_usdt = 300, side = ''BUY''\<rparr>,
                  \<lparr>timestamp_us = 30, amount_btc = 3 / 2, amount_usdt = 150, side = ''SELL''\<rparr>,
                  \<lparr>timestamp_us = 40, amount_btc = 1, amount_usdt = 100, side = ''BUY''\<rparr>]\<rparr>) \<and>
   find_largest_trades sum_list tie_frame 3 =
     Inr \<lparr>columns = [''T'', ''side'', ''amount_btc'', ''amount_usdt''],
          rows = [\<lparr>timestamp_us = 20, amount_btc = 2, amount_usdt = 300, side = ''BUY''\<rparr>,
                  \<lparr>timestamp_us = 30, amount_btc = 3 / 2, amount_usdt = 150, side = ''SELL''\<rparr>,
                  \<lparr>timestamp_us = 10, amount_btc = 1, amount_usdt = 100, side = ''BUY''\<rparr>]\<rparr>"
proof -
  note t = find_largest_trades_tie_break [OF tie_frame_grouped refl, of 3]
  from t have "find_largest_trades sum_list tie_frame 3 =
     Inr (nlargest 3
       \<lparr>columns = [''T'', ''side'', ''amount_btc'', ''amount_usdt''],
          rows = [\<lparr>timestamp_us = 10, amount_btc = 1, amount_usdt = 100, side = ''BUY''\<rparr>,
                  \<lparr>timestamp_us = 10, amount_btc = 1, amount_usdt = 100, side = ''SELL''\<rparr>,
                  \<lparr>timestamp_us = 20, amount_btc = 2, amount_usdt = 300, side = ''BUY''\<rparr>,
                  \<lparr>timestamp_us = 30, amount_btc = 3 / 2, amount_usdt = 150, side = ''SELL''\<rparr>,
                  \<lparr>timestamp_us = 40, amount_btc = 1, amount_usdt = 100, side = ''BUY''\<rparr>]\<rparr>)"
    by blast
  with tie_frame_grouped tie_frame_top3 show ?thesis by blast
qed

section \<open>Properties of the fetcher\<close>

lemma get_trades_loop_raised:
  "requests_get request_count params = None \<Longrightarrow>
     get_trades_loop requests_get symbol end_time request_count params trades = Some Failed"
  by (subst get_trades_loop.simps) (simp add: get_trades_page_def)

lemma test_get_trades_loop_raised:
  "requests_get request_count params = None \<Longrightarrow>
     test_get_trades_loop requests_get end_time request_count params trades = Some Failed"
  by (subst test_get_trades_loop.simps) (simp add: test_get_trades_page_def)

text \<open>
  The loop started in a state gives the same result as the loop started in any state
  it reaches.
\<close>

lemma get_trades_loop_turns:
  "get_trades_turns requests_get symbol end_time k (rc, ps, ts) = Some (rc', ps', ts') \<Longrightarrow>
     get_trades_loop requests_get symbol end_time rc ps ts =
       get_trades_loop requests_get symbol end_time rc' ps' ts'"
proof (induction k arbitrary: rc ps ts)
  case 0
  then show ?case by simp
next
  case (Suc k)
  from Suc.prems obtain rc1 ps1 ts1 where
    step: "get_trades_page requests_get symbol end_time rc ps ts = Again rc1 ps1 ts1"
    and rest: "get_trades_turns requests_get symbol end_time k (rc1, ps1, ts1) = Some (rc', ps', ts')"
    by (auto split: fetch_step.splits)
  have "get_trades_loop requests_get symbol end_time rc ps ts =
      get_trades_loop requests_get symbol end_time rc1 ps1 ts1"
    by (subst get_trades_loop.simps) (simp add: step)
  with Suc.IH [OF rest] show ?case by simp
qed

lemma test_get_trades_loop_turns:
  "test_get_trades_turns requests_get end_time k (rc, ps, ts) = Some (rc', ps', ts') \<Longrightarrow>
     test_get_trades_loop requests_get end_time rc ps ts =
       test_get_trades_loop requests_get end_time rc' ps' ts'"
proof (induction k arbitrary: rc ps ts)
  case 0
  then show ?case by simp
next
  case (Suc k)
  from Suc.prems obtain rc1 ps1 ts1 where
    step: "test_get_trades_page requests_get end_time rc ps ts = Again rc1 ps1 ts1"
    and rest: "test_get_trades_turns requests_get end_time k (rc1, ps1, ts1) = Some (rc', ps', ts')"
    by (auto split: fetch_step.splits)
  have "test_get_trades_loop requests_get end_time rc ps ts =
      test_get_trades_loop requests_get end_time rc1 ps1 ts1"
    by (subst test_get_trades_loop.simps) (simp add: step)
  with Suc.IH [OF rest] show ?case by simp
qed

lemma get_trades_no_trades:
  "get_trades (\<lambda>k params. Some []) symbol start_time end_time = Some []"
  by (simp add: get_trades_def get_trades_loop.simps get_trades_page_def)

lemma test_get_trades_no_trades:
  "test_get_trades (\<lambda>k params. Some []) symbol start_time end_time = Some []"
  by (simp add: test_get_trades_def test_get_trades_loop.simps test_get_trades_page_def)

lemma get_trades_all_fail:
  "get_trades (\<lambda>k params. None) symbol start_time end_time = Some []"
  by (simp add: get_trades_def get_trades_loop_raised)

lemma test_get_trades_all_fail:
  "test_get_trades (\<lambda>k params. None) symbol start_time end_time = Some []"
  by (simp add: test_get_trades_def test_get_trades_loop_raised)

text \<open>
  Claim C4. If, after any number \<open>k\<close> of pages that were fetched and accumulated, the
  next request raises, then \<^verbatim>\<open>get_trades\<close> returns the empty list in both scripts,
  whatever was accumulated. An exchange that has no trade at all gives the same empty
  list, so the two cases look alike to the caller.
\<close>

theorem get_trades_error_empty:
  "(get_trades_turns requests_get symbol end_time k
       (0, \<lparr>param_symbol = symbol, param_startTime = Some start_time, param_endTime = None,
            param_fromId = None, param_limit = 1000\<rparr>, []) = Some (request_count, params, trades) \<and>
     requests_get request_count params = None
     \<longrightarrow> get_trades requests_get symbol start_time end_time = Some []) \<and>
   (test_get_trades_turns requests_get end_time k
       (0, \<lparr>param_symbol = symbol, param_startTime = Some start_time,
            param_endTime = Some end_time, param_fromId = None, param_limit = 1000\<rparr>, []) =
       Some (request_count, params, trades) \<and>
     requests_get request_count params = None
     \<longrightarrow> test_get_trades requests_get symbol start_time end_time = Some []) \<and>
   get_trades (\<lambda>k params. Some []) symbol start_time end_time = Some [] \<and>
   test_get_trades (\<lambda>k params. Some []) symbol start_time end_time = Some []"
proof (intro conjI impI)
  assume a: "get_trades_turns requests_get symbol end_time k
       (0, \<lparr>param_symbol = symbol, param_startTime = Some start_time, param_endTime = None,
            param_fromId = None, param_limit = 1000\<rparr>, []) = Some (request_count, params, trades) \<and>
     requests_get request_count params = None"
  then have "get_trades_loop requests_get symbol end_time 0
       \<lparr>param_symbol = symbol, param_startTime = Some start_time, param_endTime = None,
        param_fromId = None, param_limit = 1000\<rparr> [] = Some Failed"
    using get_trades_loop_turns get_trades_loop_raised by metis
  then show "get_trades requests_get symbol start_time end_time = Some []"
    by (simp add: get_trades_def)
next
  assume a: "test_get_trades_turns requests_get end_time k
       (0, \<lparr>param_symbol = symbol, param_startTime = Some start_time,
            param_endTime = Some end_time, param_fromId = None, param_limit = 1000\<rparr>, []) =
       Some (request_count, params, trades) \<and>
     requests_get request_count params = None"
  then have "test_get_trades_loop requests_get end_time 0
       \<lparr>param_symbol = symbol, param_startTime = Some start_time,
        param_endTime = Some end_time, param_fromId = None, param_limit = 1000\<rparr> [] = Some Failed"
    using test_get_trades_loop_turns test_get_trades_loop_raised by metis
  then show "test_get_trades requests_get symbol start_time end_time = Some []"
    by (simp add: test_get_trades_def)
next
  show "get_trades (\<lambda>k params. Some []) symbol start_time end_time = Some []"
    by (simp add: get_trades_def get_trades_loop.simps get_trades_page_def)
next
  show "test_get_trades (\<lambda>k params. Some []) symbol start_time end_time = Some []"
    by (simp add: test_get_trades_def test_get_trades_loop.simps test_get_trades_page_def)
qed

theorem get_trades_error_empty_witness:
  "get_trades_turns failing_server ''BTCUSDT'' 100 1
       (0, \<lparr>param_symbol = ''BTCUSDT'', param_startTime = Some 0, param_endTime = None,
            param_fromId = None, param_limit = 1000\<rparr>, []) =
     Some (1, \<lparr>param_symbol = ''BTCUSDT'', param_startTime = None, param_endTime = None,
                param_fromId = Some 8, param_limit = 1000\<rparr>,
           [\<lparr>trade_a = 7, trade_p = ''50000.0'', trade_q = ''1.0'', trade_T = 5,
             trade_m = False\<rparr>]) \<and>
   failing_server 1 \<lparr>param_symbol = ''BTCUSDT'', param_startTime = None, param_endTime = None,
                param_fromId = Some 8, param_limit = 1000\<rparr> = None \<and>
   get_trades failing_server ''BTCUSDT'' 0 100 = Some [] \<and>
   test_get_trades_turns failing_server 100 1
       (0, \<lparr>param_symbol = ''BTCUSDT'', param_startTime = Some 0, param_endTime = Some 100,
            param_fromId = None, param_limit = 1000\<rparr>, []) =
     Some (1, \<lparr>param_symbol = ''BTCUSDT'', param_startTime = Some 6, param_endTime = Some 100,
                param_fromId = None, param_limit = 1000\<rparr>,
           [\<lparr>trade_a = 7, trade_p = ''50000.0'', trade_q = ''1.0'', trade_T = 5,
             trade_m = False\<rparr>]) \<and>
   failing_server 1 \<lparr>param_symbol = ''BTCUSDT'', param_startTime = Some 6, param_endTime = Some 100,
                param_fromId = None, param_limit = 1000\<rparr> = None \<and>
   test_get_trades failing_server ''BTCUSDT'' 0 100 = Some []"
proof -
  have a: "get_trades_turns failing_server ''BTCUSDT'' 100 1
       (0, \<lparr>param_symbol = ''BTCUSDT'', param_startTime = Some 0, param_endTime = None,
            param_fromId = None, param_limit = 1000\<rparr>, []) =
     Some (1, \<lparr>param_symbol = ''BTCUSDT'', param_startTime = None, param_endTime = None,
                param_fromId = Some 8, param_limit = 1000\<rparr>,
           [\<lparr>trade_a = 7, trade_p = ''50000.0'', trade_q = ''1.0'', trade_T = 5,
             trade_m = False\<rparr>])"
    by (simp add: get_trades_page_def failing_server_def)
  have b: "test_get_trades_turns failing_server 100 1
       (0, \<lparr>param_symbol = ''BTCUSDT'', param_startTime = Some 0, param_endTime = Some 100,
            param_fromId = None, param_limit = 1000\<rparr>, []) =
     Some (1, \<lparr>param_symbol = ''BTCUSDT'', param_startTime = Some 6, param_endTime = Some 100,
                param_fromId = None, param_limit = 1000\<rparr>,
           [\<lparr>trade_a = 7, trade_p = ''50000.0'', trade_q = ''1.0'', trade_T = 5,
             trade_m = False\<rparr>])"
    by (simp add: test_get_trades_page_def failing_server_def)
  have f: "\<And>ps. failing_server 1 ps = None"
    by (simp add: failing_server_def)
  note t = get_trades_error_empty [of failing_server "''BTCUSDT''" 100 1 0 1 _ _ ]
  from t a f have c: "get_trades failing_server ''BTCUSDT'' 0 100 = Some []"
    by blast
  from t b f have d: "test_get_trades failing_server ''BTCUSDT'' 0 100 = Some []"
    by blast
  from a b c d f show ?thesis by blast
qed

lemma burst_page:
  "take 1000 burst_history = map burst_trade [0..<1000]"
  by (simp add: burst_history_def take_map)

lemma burst_last: "last (map burst_trade [0..<1000]) = burst_trade 999"
  by (simp add: last_map)

lemma burst_times:
  "t \<in> set burst_history \<Longrightarrow> 0 \<le> trade_T t \<and> trade_T t \<le> 999"
  by (auto simp: burst_history_def burst_trade_def)

lemma burst_first_request:
  "aggTrades burst_history 0
      \<lparr>param_symbol = symbol, param_startTime = Some 0, param_endTime = None,
       param_fromId = None, param_limit = 1000\<rparr> = Some (map burst_trade [0..<1000])"
proof -
  have "filter (\<lambda>t. 0 \<le> trade_T t) burst_history = burst_history"
    by (rule filter_True) (simp add: burst_times)
  then show ?thesis by (simp add: aggTrades_def burst_page)
qed

lemma burst_in_window:
  "filter (\<lambda>trade. 0 \<le> trade_T trade \<and> trade_T trade \<le> 999) (map burst_trade [0..<1000]) =
     map burst_trade [0..<1000]"
  by (rule filter_True) (auto simp: burst_trade_def)

lemma get_trades_burst:
  "get_trades (aggTrades burst_history) symbol 0 999 = Some (map burst_trade [0..<1000])"
proof -
  have "get_trades_page (aggTrades burst_history) symbol 999 0
      \<lparr>param_symbol = symbol, param_startTime = Some 0, param_endTime = None,
       param_fromId = None, param_limit = 1000\<rparr> [] = Break 1 (map burst_trade [0..<1000])"
    unfolding get_trades_page_def burst_first_request
    by (simp add: burst_last last_map burst_trade_def)
  then have "get_trades_loop (aggTrades burst_history) symbol 999 0
      \<lparr>param_symbol = symbol, param_startTime = Some 0, param_endTime = None,
       param_fromId = None, param_limit = 1000\<rparr> [] = Some (Fetched 1 (map burst_trade [0..<1000]))"
    by (subst get_trades_loop.simps) simp
  then show ?thesis
    by (simp add: get_trades_def burst_in_window)
qed

lemma burst_first_request_test:
  "aggTrades burst_history 0
      \<lparr>param_symbol = symbol, param_startTime = Some 0, param_endTime = Some 5000,
       param_fromId = None, param_limit = 1000\<rparr> = Some (map burst_trade [0..<1000])"
proof -
  have "filter (\<lambda>t. 0 \<le> trade_T t \<and> trade_T t \<le> 5000) burst_history = burst_history"
    by (rule filter_True) (use burst_times in force)
  then show ?thesis by (simp add: aggTrades_def burst_page)
qed

lemma burst_second_request_test:
  "aggTrades burst_history 1
      \<lparr>param_symbol = symbol, param_startTime = Some 1000, param_endTime = Some 5000,
       param_fromId = None, param_limit = 1000\<rparr> = Some []"
proof -
  have "filter (\<lambda>t. 1000 \<le> trade_T t \<and> trade_T t \<le> 5000) burst_history = []"
    unfolding filter_empty_conv using burst_times by force
  then show ?thesis by (simp add: aggTrades_def)
qed

lemma test_get_trades_burst:
  "test_get_trades (aggTrades burst_history) symbol 0 5000 = Some (map burst_trade [0..<1000])"
proof -
  have one: "test_get_trades_page (aggTrades burst_history) 5000 0
      \<lparr>param_symbol = symbol, param_startTime = Some 0, param_endTime = Some 5000,
       param_fromId = None, param_limit = 1000\<rparr> [] =
     Again 1 \<lparr>param_symbol = symbol, param_startTime = Some 1000, param_endTime = Some 5000,
       param_fromId = None, param_limit = 1000\<rparr> (map burst_trade [0..<1000])"
    unfolding test_get_trades_page_def burst_first_request_test
    by (simp add: last_map burst_trade_def)
  have two: "test_get_trades_page (aggTrades burst_history) 5000 1
      \<lparr>param_symbol = symbol, param_startTime = Some 1000, param_endTime = Some 5000,
       param_fromId = None, param_limit = 1000\<rparr> (map burst_trade [0..<1000]) =
     Break 1 (map burst_trade [0..<1000])"
    unfolding test_get_trades_page_def burst_second_request_test by simp
  have "test_get_trades_loop (aggTrades burst_history) 5000 0
      \<lparr>param_symbol = symbol, param_startTime = Some 0, param_endTime = Some 5000,
       param_fromId = None, param_limit = 1000\<rparr> [] = Some (Fetched 1 (map burst_trade [0..<1000]))"
    apply (subst test_get_trades_loop.simps)
    apply (simp only: one fetch_step.case)
    apply (subst test_get_trades_loop.simps)
    apply (simp only: two fetch_step.case)
    done
  then show ?thesis
    by (simp add: test_get_trades_def)
qed

lemma burst_omitted:
  "burst_trade 1000 \<in> set burst_history \<and> burst_trade 1000 \<notin> set (map burst_trade [0..<1000]) \<and>
   trade_T (burst_trade 1000) = 999"
  by (auto simp: burst_history_def burst_trade_def)

text \<open>
  Claim C3, on the history \<open>burst_history\<close> served faithfully. Trade 1000 has the
  timestamp 999 and so lies in the window from 0 to 999 and in the window from 0 to
  5000, yet neither script returns it. \<^verbatim>\<open>BTC_Tracking.py\<close> stops after the first page,
  whose last timestamp has reached the end of the window. \<^verbatim>\<open>test.py\<close> asks next for the
  timestamps from 1000 on, which skips the trade that shares the timestamp 999 with
  the last trade of the first page.
\<close>

theorem get_trades_drops_trade:
  "get_trades (aggTrades burst_history) ''BTCUSDT'' 0 999 = Some (map burst_trade [0..<1000]) \<and>
   test_get_trades (aggTrades burst_history) ''BTCUSDT'' 0 5000 = Some (map burst_trade [0..<1000]) \<and>
   burst_trade 1000 \<in> set burst_history \<and>
   trade_T (burst_trade 1000) = 999 \<and>
   burst_trade 1000 \<notin> set (map burst_trade [0..<1000])"
  using get_trades_burst test_get_trades_burst burst_omitted by blast

lemma ticking_page:
  "take 1000 ticking_history = map ticking_trade [0..<1000]"
  by (simp add: ticking_history_def take_map)

lemma ticking_times:
  "t \<in> set ticking_history \<Longrightarrow> 0 \<le> trade_T t \<and> trade_T t \<le> 1000"
  by (auto simp: ticking_history_def ticking_trade_def)

lemma ticking_first_request_test:
  "aggTrades ticking_history 0
      \<lparr>param_symbol = symbol, param_startTime = Some 0, param_endTime = Some 1000,
       param_fromId = None, param_limit = 1000\<rparr> = Some (map ticking_trade [0..<1000])"
proof -
  have "filter (\<lambda>t. 0 \<le> trade_T t \<and> trade_T t \<le> 1000) ticking_history = ticking_history"
    by (rule filter_True) (use ticking_times in force)
  then show ?thesis by (simp add: aggTrades_def ticking_page)
qed

lemma test_page_ticking:
  "test_get_trades_page (aggTrades ticking_history) 1000 0
      \<lparr>param_symbol = symbol, param_startTime = Some 0, param_endTime = Some 1000,
       param_fromId = None, param_limit = 1000\<rparr> [] = Break 1 (map ticking_trade [0..<1000])"
  unfolding test_get_trades_page_def ticking_first_request_test
  by (simp add: last_map ticking_trade_def)

lemma test_get_trades_ticking:
  "test_get_trades (aggTrades ticking_history) symbol 0 1000 =
     Some (map ticking_trade [0..<1000])"
proof -
  have "test_get_trades_loop (aggTrades ticking_history) 1000 0
      \<lparr>param_symbol = symbol, param_startTime = Some 0, param_endTime = Some 1000,
       param_fromId = None, param_limit = 1000\<rparr> [] =
     Some (Fetched 1 (map ticking_trade [0..<1000]))"
    by (subst test_get_trades_loop.simps) (simp add: test_page_ticking)
  then show ?thesis by (simp add: test_get_trades_def)
qed

lemma ticking_first_request:
  "aggTrades ticking_history 0
      \<lparr>param_symbol = symbol, param_startTime = Some 0, param_endTime = None,
       param_fromId = None, param_limit = 1000\<rparr> = Some (map ticking_trade [0..<1000])"
proof -
  have "filter (\<lambda>t. 0 \<le> trade_T t) ticking_history = ticking_history"
    by (rule filter_True) (simp add: ticking_times)
  then show ?thesis by (simp add: aggTrades_def ticking_page)
qed

lemma ticking_split:
  "ticking_history = map ticking_trade [0..<1000] @ [ticking_trade 1000]"
proof -
  have "[0..<1001] = [0..<1000] @ [1000]"
    using upt_Suc_append [of 0 1000] by simp
  then show ?thesis by (simp add: ticking_history_def)
qed

lemma ticking_second_request:
  "aggTrades ticking_history 1
      \<lparr>param_symbol = symbol, param_startTime = None, param_endTime = None,
       param_fromId = Some 1000, param_limit = 1000\<rparr> = Some [ticking_trade 1000]"
proof -
  have "filter (\<lambda>t. 1000 \<le> trade_a t) (map ticking_trade [0..<1000]) = []"
    unfolding filter_empty_conv by (auto simp: ticking_trade_def)
  then have "filter (\<lambda>t. 1000 \<le> trade_a t) ticking_history = [ticking_trade 1000]"
    unfolding ticking_split by (simp add: ticking_trade_def)
  then show ?thesis by (simp add: aggTrades_def)
qed

lemma get_trades_ticking:
  "get_trades (aggTrades ticking_history) symbol 0 1000 = Some ticking_history"
proof -
  have one: "get_trades_page (aggTrades ticking_history) symbol 1000 0
      \<lparr>param_symbol = symbol, param_startTime = Some 0, param_endTime = None,
       param_fromId = None, param_limit = 1000\<rparr> [] =
     Again 1 \<lparr>param_symbol = symbol, param_startTime = None, param_endTime = None,
       param_fromId = Some 1000, param_limit = 1000\<rparr> (map ticking_trade [0..<1000])"
    unfolding get_trades_page_def ticking_first_request
    by (simp add: last_map ticking_trade_def)
  have two: "get_trades_page (aggTrades ticking_history) symbol 1000 1
      \<lparr>param_symbol = symbol, param_startTime = None, param_endTime = None,
       param_fromId = Some 1000, param_limit = 1000\<rparr> (map ticking_trade [0..<1000]) =
     Break 2 ticking_history"
    unfolding get_trades_page_def ticking_second_request
    by (simp add: ticking_trade_def ticking_split)
  have "get_trades_loop (aggTrades ticking_history) symbol 1000 0
      \<lparr>param_symbol = symbol, param_startTime = Some 0, param_endTime = None,
       param_fromId = None, param_limit = 1000\<rparr> [] = Some (Fetched 2 ticking_history)"
    apply (subst get_trades_loop.simps)
    apply (simp only: one fetch_step.case)
    apply (subst get_trades_loop.simps)
    apply (simp only: two fetch_step.case)
    done
  moreover have "filter (\<lambda>trade. 0 \<le> trade_T trade \<and> trade_T trade \<le> 1000) ticking_history =
      ticking_history"
    by (rule filter_True) (use ticking_times in force)
  ultimately show ?thesis by (simp add: get_trades_def)
qed

lemma ticking_last: "trade_T (last (map ticking_trade [0..<1000])) = 999"
  by (simp add: last_map ticking_trade_def)

lemma ticking_late: "trade_T (ticking_trade 1000) = 1000"
  by (simp add: ticking_trade_def)

text \<open>
  Claim C9, on the history \<open>ticking_history\<close> served faithfully with the window from 0
  to 1000. The first page of \<^verbatim>\<open>test.py\<close> is not empty and its last timestamp is 999,
  below the end of the window, and still the loop breaks there: it compares the next
  start time, 999 + 1, with the end. The trade with the timestamp 1000 is never
  requested. \<^verbatim>\<open>BTC_Tracking.py\<close> compares the last timestamp itself, goes on and
  returns all 1001 trades.
\<close>

theorem test_get_trades_stops_early:
  "test_get_trades_page (aggTrades ticking_history) 1000 0
      \<lparr>param_symbol = ''BTCUSDT'', param_startTime = Some 0, param_endTime = Some 1000,
       param_fromId = None, param_limit = 1000\<rparr> [] = Break 1 (map ticking_trade [0..<1000]) \<and>
   trade_T (last (map ticking_trade [0..<1000])) = 999 \<and>
   test_get_trades (aggTrades ticking_history) ''BTCUSDT'' 0 1000 =
     Some (map ticking_trade [0..<1000]) \<and>
   get_trades (aggTrades ticking_history) ''BTCUSDT'' 0 1000 = Some ticking_history \<and>
   ticking_history = map ticking_trade [0..<1000] @ [ticking_trade 1000] \<and>
   trade_T (ticking_trade 1000) = 1000"
  using test_page_ticking test_get_trades_ticking get_trades_ticking ticking_split
    ticking_last ticking_late
  by blast

subsection \<open>Termination against an exchange that serves one history\<close>

text \<open>
  Against an exchange that serves one history, every page that lets the loop go on
  moves the cursor past a trade of the history, so fewer trades remain beyond the
  cursor each time. Both loops therefore return, and \<^verbatim>\<open>request_count\<close> never exceeds
  the length of the history.
\<close>

lemma last_take_in_set:
  "take n xs \<noteq> [] \<Longrightarrow> last (take n xs) \<in> set xs"
  by (meson in_set_takeD last_in_set)

lemma aggTrades_fromId:
  "aggTrades history k
      \<lparr>param_symbol = symbol, param_startTime = None, param_endTime = None,
       param_fromId = Some f, param_limit = 1000\<rparr> =
     Some (take 1000 (filter (\<lambda>t. f \<le> trade_a t) history))"
  by (simp add: aggTrades_def)

lemma fromId_advances:
  assumes "page = take 1000 (filter (\<lambda>t. f \<le> trade_a t) history)" and "page \<noteq> []"
  shows "f < trade_a (last page) + 1 \<and>
         length (filter (\<lambda>t. trade_a (last page) + 1 \<le> trade_a t) history)
           < length (filter (\<lambda>t. f \<le> trade_a t) history)"
proof -
  let ?sel = "filter (\<lambda>t. f \<le> trade_a t) history"
  from assms have mem: "last page \<in> set ?sel"
    using last_take_in_set by blast
  then have lo: "f \<le> trade_a (last page)" by simp
  have "filter (\<lambda>t. trade_a (last page) + 1 \<le> trade_a t) history =
      filter (\<lambda>t. trade_a (last page) + 1 \<le> trade_a t) ?sel"
    using lo by (auto simp: filter_filter intro: filter_cong)
  moreover have "length (filter (\<lambda>t. trade_a (last page) + 1 \<le> trade_a t) ?sel) < length ?sel"
    by (rule length_filter_less [OF mem]) simp
  ultimately show ?thesis using lo by simp
qed

lemma get_trades_loop_fromId_terminates:
  "\<exists>request_count' trades'.
     get_trades_loop (aggTrades history) symbol end_time request_count
       \<lparr>param_symbol = symbol, param_startTime = None, param_endTime = None,
        param_fromId = Some f, param_limit = 1000\<rparr> trades =
       Some (Fetched request_count' trades') \<and>
     request_count' \<le> request_count + length (filter (\<lambda>t. f \<le> trade_a t) history)"
proof (induction "length (filter (\<lambda>t. f \<le> trade_a t) history)"
    arbitrary: f request_count trades rule: less_induct)
  case less
  let ?ps = "\<lparr>param_symbol = symbol, param_startTime = None, param_endTime = None,
        param_fromId = Some f, param_limit = 1000\<rparr>"
  let ?sel = "filter (\<lambda>t. f \<le> trade_a t) history"
  let ?page = "take 1000 ?sel"
  show ?case
  proof (cases "?page = []")
    case True
    then have "get_trades_page (aggTrades history) symbol end_time request_count ?ps trades =
        Break request_count trades"
      by (simp add: get_trades_page_def aggTrades_fromId)
    then have "get_trades_loop (aggTrades history) symbol end_time request_count ?ps trades =
        Some (Fetched request_count trades)"
      by (subst get_trades_loop.simps) simp
    then show ?thesis by simp
  next
    case False
    then have nonempty: "1 \<le> length ?sel" by (cases ?sel) auto
    show ?thesis
    proof (cases "trade_T (last ?page) \<ge> end_time")
      case True
      with False have "get_trades_page (aggTrades history) symbol end_time request_count ?ps trades =
          Break (request_count + 1) (trades @ ?page)"
        by (simp add: get_trades_page_def aggTrades_fromId)
      then have "get_trades_loop (aggTrades history) symbol end_time request_count ?ps trades =
          Some (Fetched (request_count + 1) (trades @ ?page))"
        by (subst get_trades_loop.simps) simp
      with nonempty show ?thesis by simp
    next
      case stay: False
      let ?f' = "trade_a (last ?page) + 1"
      let ?ps' = "\<lparr>param_symbol = symbol, param_startTime = None, param_endTime = None,
        param_fromId = Some ?f', param_limit = 1000\<rparr>"
      from False stay have
        "get_trades_page (aggTrades history) symbol end_time request_count ?ps trades =
          Again (request_count + 1) ?ps' (trades @ ?page)"
        by (simp add: get_trades_page_def aggTrades_fromId)
      then have unfold: "get_trades_loop (aggTrades history) symbol end_time request_count ?ps trades =
          get_trades_loop (aggTrades history) symbol end_time (request_count + 1) ?ps'
            (trades @ ?page)"
        by (subst get_trades_loop.simps) simp
      have smaller: "length (filter (\<lambda>t. ?f' \<le> trade_a t) history) < length ?sel"
        using fromId_advances [OF refl False] by blast
      from less [OF smaller, of "request_count + 1" "trades @ ?page"]
      obtain rc' ts' where
        "get_trades_loop (aggTrades history) symbol end_time (request_count + 1) ?ps'
            (trades @ ?page) = Some (Fetched rc' ts')"
        and "rc' \<le> request_count + 1 + length (filter (\<lambda>t. ?f' \<le> trade_a t) history)"
        by blast
      with unfold smaller show ?thesis by auto
    qed
  qed
qed

lemma get_trades_loop_terminates:
  "\<exists>request_count trades.
     get_trades_loop (aggTrades history) symbol end_time 0
       \<lparr>param_symbol = symbol, param_startTime = Some start_time, param_endTime = None,
        param_fromId = None, param_limit = 1000\<rparr> [] = Some (Fetched request_count trades) \<and>
     request_count \<le> length history"
proof -
  let ?ps = "\<lparr>param_symbol = symbol, param_startTime = Some start_time, param_endTime = None,
        param_fromId = None, param_limit = 1000\<rparr>"
  let ?sel = "filter (\<lambda>t. start_time \<le> trade_T t) history"
  let ?page = "take 1000 ?sel"
  have srv: "aggTrades history 0 ?ps = Some ?page"
    by (simp add: aggTrades_def)
  show ?thesis
  proof (cases "?page = []")
    case True
    then have "get_trades_page (aggTrades history) symbol end_time 0 ?ps [] = Break 0 []"
      by (simp add: get_trades_page_def srv)
    then have "get_trades_loop (aggTrades history) symbol end_time 0 ?ps [] = Some (Fetched 0 [])"
      by (subst get_trades_loop.simps) simp
    then show ?thesis by simp
  next
    case False
    then have mem: "last ?page \<in> set history"
      using last_take_in_set [of 1000 ?sel] by auto
    then have nonempty: "1 \<le> length history" by (cases history) auto
    show ?thesis
    proof (cases "trade_T (last ?page) \<ge> end_time")
      case True
      with False have "get_trades_page (aggTrades history) symbol end_time 0 ?ps [] =
          Break 1 ?page"
        by (simp add: get_trades_page_def srv)
      then have "get_trades_loop (aggTrades history) symbol end_time 0 ?ps [] =
          Some (Fetched 1 ?page)"
        by (subst get_trades_loop.simps) simp
      with nonempty show ?thesis by simp
    next
      case stay: False
      let ?f' = "trade_a (last ?page) + 1"
      let ?ps' = "\<lparr>param_symbol = symbol, param_startTime = None, param_endTime = None,
        param_fromId = Some ?f', param_limit = 1000\<rparr>"
      from False stay have
        "get_trades_page (aggTrades history) symbol end_time 0 ?ps [] = Again 1 ?ps' ?page"
        by (simp add: get_trades_page_def srv)
      then have unfold: "get_trades_loop (aggTrades history) symbol end_time 0 ?ps [] =
          get_trades_loop (aggTrades history) symbol end_time 1 ?ps' ?page"
        by (subst get_trades_loop.simps) simp
      have smaller: "length (filter (\<lambda>t. ?f' \<le> trade_a t) history) < length history"
        by (rule length_filter_less [OF mem]) simp
      from get_trades_loop_fromId_terminates [of history symbol end_time 1 ?f' ?page]
      obtain rc' ts' where
        "get_trades_loop (aggTrades history) symbol end_time 1 ?ps' ?page = Some (Fetched rc' ts')"
        and "rc' \<le> 1 + length (filter (\<lambda>t. ?f' \<le> trade_a t) history)"
        by blast
      with unfold smaller show ?thesis by auto
    qed
  qed
qed

lemma get_trades_returns:
  "\<exists>trades. get_trades (aggTrades history) symbol start_time end_time = Some trades"
proof -
  from get_trades_loop_terminates [of history symbol end_time start_time]
  obtain rc ts where "get_trades_loop (aggTrades history) symbol end_time 0
       \<lparr>param_symbol = symbol, param_startTime = Some start_time, param_endTime = None,
        param_fromId = None, param_limit = 1000\<rparr> [] = Some (Fetched rc ts)"
    by blast
  then show ?thesis by (simp add: get_trades_def)
qed

lemma aggTrades_startTime:
  "aggTrades history k
      \<lparr>param_symbol = symbol, param_startTime = Some s, param_endTime = Some e,
       param_fromId = None, param_limit = 1000\<rparr> =
     Some (take 1000 (filter (\<lambda>t. s \<le> trade_T t \<and> trade_T t \<le> e) history))"
  by (simp add: aggTrades_def)

lemma startTime_advances:
  assumes "page = take 1000 (filter (\<lambda>t. s \<le> trade_T t \<and> trade_T t \<le> e) history)"
    and "page \<noteq> []"
  shows "s < trade_T (last page) + 1 \<and>
         length (filter (\<lambda>t. trade_T (last page) + 1 \<le> trade_T t \<and> trade_T t \<le> e) history)
           < length (filter (\<lambda>t. s \<le> trade_T t \<and> trade_T t \<le> e) history)"
proof -
  let ?sel = "filter (\<lambda>t. s \<le> trade_T t \<and> trade_T t \<le> e) history"
  from assms have mem: "last page \<in> set ?sel"
    using last_take_in_set by blast
  then have lo: "s \<le> trade_T (last page)" by simp
  have "filter (\<lambda>t. trade_T (last page) + 1 \<le> trade_T t \<and> trade_T t \<le> e) history =
      filter (\<lambda>t. trade_T (last page) + 1 \<le> trade_T t) ?sel"
    using lo by (auto simp: filter_filter intro: filter_cong)
  moreover have "length (filter (\<lambda>t. trade_T (last page) + 1 \<le> trade_T t) ?sel) < length ?sel"
    by (rule length_filter_less [OF mem]) simp
  ultimately show ?thesis using lo by simp
qed

lemma test_get_trades_loop_terminates_from:
  "\<exists>request_count' trades'.
     test_get_trades_loop (aggTrades history) end_time request_count
       \<lparr>param_symbol = symbol, param_startTime = Some s, param_endTime = Some end_time,
        param_fromId = None, param_limit = 1000\<rparr> trades =
       Some (Fetched request_count' trades') \<and>
     request_count' \<le> request_count +
       length (filter (\<lambda>t. s \<le> trade_T t \<and> trade_T t \<le> end_time) history)"
proof (induction "length (filter (\<lambda>t. s \<le> trade_T t \<and> trade_T t \<le> end_time) history)"
    arbitrary: s request_count trades rule: less_induct)
  case less
  let ?ps = "\<lparr>param_symbol = symbol, param_startTime = Some s, param_endTime = Some end_time,
        param_fromId = None, param_limit = 1000\<rparr>"
  let ?sel = "filter (\<lambda>t. s \<le> trade_T t \<and> trade_T t \<le> end_time) history"
  let ?page = "take 1000 ?sel"
  show ?case
  proof (cases "?page = []")
    case True
    then have "test_get_trades_page (aggTrades history) end_time request_count ?ps trades =
        Break request_count trades"
      by (simp add: test_get_trades_page_def aggTrades_startTime)
    then have "test_get_trades_loop (aggTrades history) end_time request_count ?ps trades =
        Some (Fetched request_count trades)"
      by (subst test_get_trades_loop.simps) simp
    then show ?thesis by simp
  next
    case False
    then have nonempty: "1 \<le> length ?sel" by (cases ?sel) auto
    show ?thesis
    proof (cases "trade_T (last ?page) + 1 \<ge> end_time")
      case True
      with False have "test_get_trades_page (aggTrades history) end_time request_count ?ps trades =
          Break (request_count + 1) (trades @ ?page)"
        by (simp add: test_get_trades_page_def aggTrades_startTime)
      then have "test_get_trades_loop (aggTrades history) end_time request_count ?ps trades =
          Some (Fetched (request_count + 1) (trades @ ?page))"
        by (subst test_get_trades_loop.simps) simp
      with nonempty show ?thesis by simp
    next
      case stay: False
      let ?s' = "trade_T (last ?page) + 1"
      let ?ps' = "\<lparr>param_symbol = symbol, param_startTime = Some ?s', param_endTime = Some end_time,
        param_fromId = None, param_limit = 1000\<rparr>"
      from False stay have
        "test_get_trades_page (aggTrades history) end_time request_count ?ps trades =
          Again (request_count + 1) ?ps' (trades @ ?page)"
        by (simp add: test_get_trades_page_def aggTrades_startTime)
      then have unfold: "test_get_trades_loop (aggTrades history) end_time request_count ?ps trades =
          test_get_trades_loop (aggTrades history) end_time (request_count + 1) ?ps'
            (trades @ ?page)"
        by (subst test_get_trades_loop.simps) simp
      have smaller: "length (filter (\<lambda>t. ?s' \<le> trade_T t \<and> trade_T t \<le> end_time) history)
          < length ?sel"
        using startTime_advances [OF refl False] by blast
      from less [OF smaller, of "request_count + 1" "trades @ ?page"]
      obtain rc' ts' where
        "test_get_trades_loop (aggTrades history) end_time (request_count + 1) ?ps'
            (trades @ ?page) = Some (Fetched rc' ts')"
        and "rc' \<le> request_count + 1 +
            length (filter (\<lambda>t. ?s' \<le> trade_T t \<and> trade_T t \<le> end_time) history)"
        by blast
      with unfold smaller show ?thesis by auto
    qed
  qed
qed

lemma test_get_trades_loop_terminates:
  "\<exists>request_count trades.
     test_get_trades_loop (aggTrades history) end_time 0
       \<lparr>param_symbol = symbol, param_startTime = Some start_time, param_endTime = Some end_time,
        param_fromId = None, param_limit = 1000\<rparr> [] = Some (Fetched request_count trades) \<and>
     request_count \<le> length history"
proof -
  from test_get_trades_loop_terminates_from [of history end_time 0 symbol start_time "[]"]
  obtain rc ts where
    "test_get_trades_loop (aggTrades history) end_time 0
       \<lparr>param_symbol = symbol, param_startTime = Some start_time, param_endTime = Some end_time,
        param_fromId = None, param_limit = 1000\<rparr> [] = Some (Fetched rc ts)"
    and "rc \<le> 0 + length (filter (\<lambda>t. start_time \<le> trade_T t \<and> trade_T t \<le> end_time) history)"
    by blast
  then show ?thesis
    by (metis add_0 le_trans length_filter_le)
qed

lemma test_get_trades_returns:
  "\<exists>trades. test_get_trades (aggTrades history) symbol start_time end_time = Some trades"
proof -
  from test_get_trades_loop_terminates [of history end_time symbol start_time]
  obtain rc ts where "test_get_trades_loop (aggTrades history) end_time 0
       \<lparr>param_symbol = symbol, param_startTime = Some start_time, param_endTime = Some end_time,
        param_fromId = None, param_limit = 1000\<rparr> [] = Some (Fetched rc ts)"
    by blast
  then show ?thesis by (simp add: test_get_trades_def)
qed

text \<open>
  The filter at the end of \<^verbatim>\<open>get_trades\<close> in \<^verbatim>\<open>BTC_Tracking.py\<close> keeps the result inside
  the window, whatever the exchange answered.
\<close>

lemma get_trades_in_window:
  "get_trades requests_get symbol start_time end_time = Some trades \<Longrightarrow>
     t \<in> set trades \<Longrightarrow> start_time \<le> trade_T t \<and> trade_T t \<le> end_time"
  by (auto simp: get_trades_def split: option.splits fetch_result.splits)

section \<open>The pipeline on an empty fetch\<close>

lemma find_largest_trades_no_columns:
  "find_largest_trades fsum (pd_DataFrame ''T'' []) n = Inl KeyError"
  "test_find_largest_trades fsum (pd_DataFrame ''timestamp_us'' []) n = Inl KeyError"
  by (simp_all add: find_largest_trades_def test_find_largest_trades_def
      groupby_agg_sum_def pd_DataFrame_def)

lemma pipeline_empty:
  "(case process_trades float_of fmul [] of
      Inl e \<Rightarrow> Inl e
    | Inr df \<Rightarrow> (case find_largest_trades fsum df 5 of Inl e \<Rightarrow> Inl e
                 | Inr largest_trades \<Rightarrow> Inr (print_table h round3 fmt3 (rows largest_trades)))) =
   Inl KeyError"
  "(case test_process_trades float_of fmul [] of
      Inl e \<Rightarrow> Inl e
    | Inr df \<Rightarrow> (case test_find_largest_trades fsum df 5 of Inl e \<Rightarrow> Inl e
                 | Inr largest_trades \<Rightarrow> Inr (print_table h round3 fmt3 (rows largest_trades)))) =
   Inl KeyError"
  by (simp_all add: process_trades_def test_process_trades_def find_largest_trades_no_columns)

text \<open>
  Claim C5. When the fetch yields no trade, because the exchange has none or because
  a request failed, both scripts end with a \<^verbatim>\<open>KeyError\<close> raised by the grouping: the
  frame built from an empty list has no columns. No line of the table is printed.
\<close>

theorem main_empty_fetch:
  "main (\<lambda>k params. Some []) float_of fmul fsum round3 fmt3 = Some (Inl KeyError) \<and>
   main (\<lambda>k params. None) float_of fmul fsum round3 fmt3 = Some (Inl KeyError) \<and>
   test_main (\<lambda>k params. Some []) float_of fmul fsum round3 fmt3 = Some (Inl KeyError) \<and>
   test_main (\<lambda>k params. None) float_of fmul fsum round3 fmt3 = Some (Inl KeyError)"
  by (simp add: main_def test_main_def get_trades_no_trades get_trades_all_fail
      test_get_trades_no_trades test_get_trades_all_fail pipeline_empty)

text \<open>
  When a run does reach the table, the table has a row: a frame with columns comes
  from at least one trade, so there is at least one group and the ranking keeps at
  least one of the five it may keep.
\<close>

lemma sort_desc_nonempty: "rs \<noteq> [] \<Longrightarrow> sort_desc rs \<noteq> []"
  using length_sort_desc [of rs] by (cases "sort_desc rs") auto

lemma find_largest_trades_some_row:
  assumes "process_trades float_of fmul trades = Inr df"
    and "find_largest_trades fsum df 5 = Inr largest_trades"
  shows "rows largest_trades \<noteq> []"
proof -
  from assms(1) obtain records where df: "df = pd_DataFrame ''T'' records"
    by (auto simp: process_trades_def split: sum.splits)
  from assms(2) obtain grouped where g: "groupby_agg_sum ''T'' fsum df = Inr grouped"
    and l: "largest_trades = nlargest 5 grouped"
    by (auto simp: find_largest_trades_def split: sum.splits)
  from g have cols: "''T'' \<in> set (columns df)"
    and rows: "rows grouped = map (agg_sum fsum (rows df)) (sort (remdups (map group_key (rows df))))"
    by (auto simp: groupby_agg_sum_def split: if_splits)
  from cols df have "records \<noteq> []"
    by (auto simp: pd_DataFrame_def split: if_splits)
  then have "rows df \<noteq> []" by (simp add: df pd_DataFrame_def)
  then have "remdups (map group_key (rows df)) \<noteq> []" by simp
  then have "sort (remdups (map group_key (rows df))) \<noteq> []"
    by (metis length_0_conv length_sort)
  then have "rows grouped \<noteq> []" by (simp add: rows)
  then have "sort_desc (rows grouped) \<noteq> []" by (rule sort_desc_nonempty)
  then show ?thesis by (simp add: l nlargest_def)
qed

lemma test_find_largest_trades_some_row:
  assumes "test_process_trades float_of fmul trades = Inr df"
    and "test_find_largest_trades fsum df 5 = Inr largest_trades"
  shows "rows largest_trades \<noteq> []"
proof -
  from assms(1) obtain records where df: "df = pd_DataFrame ''timestamp_us'' records"
    by (auto simp: test_process_trades_def split: sum.splits)
  from assms(2) obtain grouped where g: "groupby_agg_sum ''timestamp_us'' fsum df = Inr grouped"
    and l: "largest_trades = nlargest 5 grouped"
    by (auto simp: test_find_largest_trades_def split: sum.splits)
  from g have cols: "''timestamp_us'' \<in> set (columns df)"
    and rows: "rows grouped = map (agg_sum fsum (rows df)) (sort (remdups (map group_key (rows df))))"
    by (auto simp: groupby_agg_sum_def split: if_splits)
  from cols df have "records \<noteq> []"
    by (auto simp: pd_DataFrame_def split: if_splits)
  then have "rows df \<noteq> []" by (simp add: df pd_DataFrame_def)
  then have "remdups (map group_key (rows df)) \<noteq> []" by simp
  then have "sort (remdups (map group_key (rows df))) \<noteq> []"
    by (metis length_0_conv length_sort)
  then have "rows grouped \<noteq> []" by (simp add: rows)
  then have "sort_desc (rows grouped) \<noteq> []" by (rule sort_desc_nonempty)
  then show ?thesis by (simp add: l nlargest_def)
qed

lemma main_prints_a_row:
  "main requests_get float_of fmul fsum round3 fmt3 = Some (Inr report) \<Longrightarrow>
     5 \<le> length report"
proof -
  assume m: "main requests_get float_of fmul fsum round3 fmt3 = Some (Inr report)"
  then obtain trades df largest_trades where
    "process_trades float_of fmul trades = Inr df"
    and "find_largest_trades fsum df 5 = Inr largest_trades"
    and r: "report = print_table table_header round3 fmt3 (rows largest_trades)"
    by (auto simp: main_def Let_def split: option.splits sum.splits)
  then have "rows largest_trades \<noteq> []"
    using find_largest_trades_some_row by blast
  then have "1 \<le> length (rows largest_trades)" by (cases "rows largest_trades") auto
  with r show ?thesis by (simp add: print_table_def)
qed

lemma test_main_prints_a_row:
  "test_main requests_get float_of fmul fsum round3 fmt3 = Some (Inr report) \<Longrightarrow>
     5 \<le> length report"
proof -
  assume m: "test_main requests_get float_of fmul fsum round3 fmt3 = Some (Inr report)"
  then obtain trades df largest_trades where
    "test_process_trades float_of fmul trades = Inr df"
    and "test_find_largest_trades fsum df 5 = Inr largest_trades"
    and r: "report = print_table test_table_header round3 fmt3 (rows largest_trades)"
    by (auto simp: test_main_def Let_def split: option.splits sum.splits)
  then have "rows largest_trades \<noteq> []"
    using test_find_largest_trades_some_row by blast
  then have "1 \<le> length (rows largest_trades)" by (cases "rows largest_trades") auto
  with r show ?thesis by (simp add: print_table_def)
qed

end
